theory Spec2Isabelle
  imports Complex_Main
begin

section \<open>Numbers, vectors and boxes\<close>

text \<open>
  A JavaScript number is modelled as a \<^typ>\<open>real\<close> (exact arithmetic: rounding, NaN and
  the infinities of IEEE doubles are not part of the model); the score, which only ever
  changes by whole increments, is an \<^typ>\<open>int\<close>. Colours are the hexadecimal literals of
  the source, as natural numbers.
\<close>

record vec3 =
  vx :: real
  vy :: real
  vz :: real

definition vec3_new :: "real \<Rightarrow> real \<Rightarrow> real \<Rightarrow> vec3" where
  "vec3_new a b c = \<lparr>vx = a, vy = b, vz = c\<rparr>"

definition vec3_add :: "vec3 \<Rightarrow> vec3 \<Rightarrow> vec3" where
  "vec3_add u v = \<lparr>vx = vx u + vx v, vy = vy u + vy v, vz = vz u + vz v\<rparr>"

definition vec3_multiplyScalar :: "vec3 \<Rightarrow> real \<Rightarrow> vec3" where
  "vec3_multiplyScalar v s = \<lparr>vx = vx v * s, vy = vy v * s, vz = vz v * s\<rparr>"

definition vec3_addScalar :: "vec3 \<Rightarrow> real \<Rightarrow> vec3" where
  "vec3_addScalar v s = \<lparr>vx = vx v + s, vy = vy v + s, vz = vz v + s\<rparr>"

text \<open>The fields \<open>min\<close> and \<open>max\<close> of a \<open>THREE.Box3\<close>.\<close>

record box3 =
  bmin :: vec3
  bmax :: vec3

text \<open>
  Modelled from the spec: \<open>THREE.Box3.expandByScalar\<close> and \<open>THREE.Box3.intersectsBox\<close>
  belong to the three.js library, which is not under src/. The first moves \<open>min\<close> down and
  \<open>max\<close> up by the scalar on every axis (a negative scalar insets the box); the second is
  the overlap test of section 4.2: closed intervals on all three axes, so that touching
  faces intersect.
\<close>

definition expandByScalar :: "box3 \<Rightarrow> real \<Rightarrow> box3" where
  "expandByScalar b s = \<lparr>bmin = vec3_addScalar (bmin b) (- s), bmax = vec3_addScalar (bmax b) s\<rparr>"

definition intersectsBox :: "box3 \<Rightarrow> box3 \<Rightarrow> bool" where
  "intersectsBox this box \<longleftrightarrow>
     vx (bmax box) \<ge> vx (bmin this) \<and> vx (bmin box) \<le> vx (bmax this) \<and>
     vy (bmax box) \<ge> vy (bmin this) \<and> vy (bmin box) \<le> vy (bmax this) \<and>
     vz (bmax box) \<ge> vz (bmin this) \<and> vz (bmin box) \<le> vz (bmax this)"

text \<open>
  Modelled from the spec: \<open>THREE.MathUtils.clamp (value, min, max)\<close> belongs to the
  three.js library as well. It keeps a value inside the closed interval from \<open>min\<close> to
  \<open>max\<close>; the library computes \<open>Math.max (min, Math.min (max, value))\<close>.
\<close>

definition clamp :: "real \<Rightarrow> real \<Rightarrow> real \<Rightarrow> real" where
  "clamp v lo hi = max lo (min hi v)"

section \<open>The host environment\<close>

text \<open>
  The transform of a mesh as the simulation writes it, with the local rotation of its one
  animated child mesh (the player's shield bubble, the power-up's ring). Materials
  (colour of the player, opacity, emissive intensity) are renderer state and are left out,
  except for the colours and opacities the simulation reads back or hands on.
\<close>

record object3d =
  position :: vec3
  rotation :: vec3
  scale :: vec3
  visible :: bool
  child_rotation :: vec3

definition object3d_new :: object3d where
  "object3d_new = \<lparr>position = vec3_new 0 0 0, rotation = vec3_new 0 0 0,
     scale = vec3_new 1 1 1, visible = True, child_rotation = vec3_new 0 0 0\<rparr>"

text \<open>
  What the code takes from outside. \<open>Math.random ()\<close> reads the next entry of a tape of
  draws, \<open>Date.now ()\<close> the next entry of a tape of clock readings, and
  \<open>Box3.setFromObject\<close> (the world-space box of a mesh and its children, computed by
  three.js from geometry that is not part of the simulation) is a function of the mesh.
  Nothing is assumed of the tapes or of that function.
\<close>

record env =
  random_tape :: "nat \<Rightarrow> real"
  random_pos :: nat
  clock_tape :: "nat \<Rightarrow> int"
  clock_pos :: nat
  setFromObject :: "object3d \<Rightarrow> box3"

text \<open>
  \<open>Math.random ()\<close> returns a number in \<open>[0, 1)\<close>: the draw is the fractional part of the
  tape entry, so every tape is a legal sequence of draws (and a legal sequence is its own
  tape).
\<close>

definition Math_random :: "env \<Rightarrow> real \<times> env" where
  "Math_random e = (frac (random_tape e (random_pos e)), e\<lparr>random_pos := Suc (random_pos e)\<rparr>)"

definition Date_now :: "env \<Rightarrow> int \<times> env" where
  "Date_now e = (clock_tape e (clock_pos e), e\<lparr>clock_pos := Suc (clock_pos e)\<rparr>)"

section \<open>Difficulty\<close>

text \<open>
  \<open>Math.min (score / 50, 3)\<close>, written out three times in the source: in \<open>Game._update\<close>
  (where it only sets the speed of the scenery), in \<open>ObstacleManager.update\<close> and in
  \<open>PowerUpManager.update\<close>.
\<close>

definition difficulty :: "int \<Rightarrow> real" where
  "difficulty score = min (real_of_int score / 50) 3"

section \<open>Power-up kinds and the active power-up\<close>

datatype POWERUP_TYPES = SHIELD | DOUBLE | SHATTER

record config =
  color :: nat
  emissive :: nat
  duration :: real

text \<open>The table \<open>POWERUP_CONFIG\<close> (the HUD label of each entry is left out).\<close>

fun POWERUP_CONFIG :: "POWERUP_TYPES \<Rightarrow> config" where
  "POWERUP_CONFIG SHIELD = \<lparr>color = 0x00ffff, emissive = 0x006688, duration = 5\<rparr>"
| "POWERUP_CONFIG DOUBLE = \<lparr>color = 0xffcc00, emissive = 0x886600, duration = 8\<rparr>"
| "POWERUP_CONFIG SHATTER = \<lparr>color = 0xff3300, emissive = 0x881100, duration = 6\<rparr>"

text \<open>The object \<open>{ type, timeLeft, label, color }\<close> held in \<open>PowerUpManager.activePowerUp\<close>.\<close>

record ActivePowerUp =
  type :: POWERUP_TYPES
  timeLeft :: real
  color :: nat

section \<open>Input\<close>

record InputActions =
  moveLeft :: bool
  moveRight :: bool
  moveForward :: bool
  moveBackward :: bool
  jump :: bool

section \<open>The player\<close>

record Player =
  trackWidth :: real
  moveSpeed :: real
  jumpForce :: real
  gravity :: real
  velocityY :: real
  isGrounded :: bool
  groundY :: real
  mesh :: object3d
  boundingBox :: box3

text \<open>
  A fresh \<open>THREE.Box3\<close> is empty (\<open>min = +Infinity\<close>, \<open>max = -Infinity\<close>); it is never read
  before \<open>setFromObject\<close> has filled it, and the model starts it as the degenerate box at
  the origin.
\<close>

definition Box3_new :: box3 where
  "Box3_new = \<lparr>bmin = vec3_new 0 0 0, bmax = vec3_new 0 0 0\<rparr>"

definition Player_new :: Player where
  "Player_new = \<lparr>trackWidth = 10, moveSpeed = 12, jumpForce = 12, gravity = 30,
     velocityY = 0, isGrounded = True, groundY = 0.6,
     mesh = object3d_new\<lparr>position := vec3_new 0 0.6 0\<rparr>, boundingBox = Box3_new\<rparr>"

definition Player_setX :: "real \<Rightarrow> Player \<Rightarrow> Player" where
  "Player_setX v p = p\<lparr>mesh := (mesh p)\<lparr>position := (position (mesh p))\<lparr>vx := v\<rparr>\<rparr>\<rparr>"

definition Player_setY :: "real \<Rightarrow> Player \<Rightarrow> Player" where
  "Player_setY v p = p\<lparr>mesh := (mesh p)\<lparr>position := (position (mesh p))\<lparr>vy := v\<rparr>\<rparr>\<rparr>"

text \<open>
  \<open>_updatePowerUpVisuals\<close>: of what it writes, only the spin of the shield bubble is part
  of the model (the rest recolours materials).
\<close>

definition Player_updatePowerUpVisuals :: "ActivePowerUp option \<Rightarrow> Player \<Rightarrow> Player" where
  "Player_updatePowerUpVisuals activePowerUp p =
     (case activePowerUp of
        None \<Rightarrow> p
      | Some a \<Rightarrow>
          (case type a of
             SHIELD \<Rightarrow>
               (let r = child_rotation (mesh p);
                    r' = r\<lparr>vy := vy r + 0.03, vx := vx r + 0.02\<rparr>
                in p\<lparr>mesh := (mesh p)\<lparr>child_rotation := r'\<rparr>\<rparr>)
           | DOUBLE \<Rightarrow> p
           | SHATTER \<Rightarrow> p))"

definition Player_update ::
  "real \<Rightarrow> InputActions \<Rightarrow> ActivePowerUp option \<Rightarrow> Player \<Rightarrow> env \<Rightarrow> Player \<times> env" where
  "Player_update dt inputActions activePowerUp p e =
     (let p1 = (if moveLeft inputActions
                then Player_setX (vx (position (mesh p)) - moveSpeed p * dt) p else p);
          p2 = (if moveRight inputActions
                then Player_setX (vx (position (mesh p1)) + moveSpeed p1 * dt) p1 else p1);
          halfTrack = trackWidth p2 / 2 - 0.5;
          p3 = Player_setX (clamp (vx (position (mesh p2))) (- halfTrack) halfTrack) p2;
          p4 = (if \<not> isGrounded p3 then
                  (let q = p3\<lparr>velocityY := velocityY p3 - gravity p3 * dt\<rparr>;
                       q' = Player_setY (vy (position (mesh q)) + velocityY q * dt) q
                   in if vy (position (mesh q')) \<le> groundY q'
                      then (Player_setY (groundY q') q')\<lparr>velocityY := 0, isGrounded := True\<rparr>
                      else q')
                else p3);
          (now, e1) = Date_now e;
          rot = rotation (mesh p4);
          rot' = rot\<lparr>vy := vy rot + 0.8 * dt, vx := sin (real_of_int now * 0.002) * 0.1\<rparr>;
          p5 = p4\<lparr>mesh := (mesh p4)\<lparr>rotation := rot'\<rparr>\<rparr>;
          p6 = Player_updatePowerUpVisuals activePowerUp p5;
          p7 = p6\<lparr>boundingBox := expandByScalar (setFromObject e1 (mesh p6)) (- 0.1)\<rparr>
      in (p7, e1))"

definition Player_jump :: "Player \<Rightarrow> bool \<times> Player" where
  "Player_jump p =
     (if isGrounded p then (True, p\<lparr>velocityY := jumpForce p, isGrounded := False\<rparr>)
      else (False, p))"

definition Player_reset :: "Player \<Rightarrow> Player" where
  "Player_reset p =
     p\<lparr>mesh := (mesh p)\<lparr>position := vec3_new 0 (groundY p) 0, rotation := vec3_new 0 0 0\<rparr>,
       velocityY := 0, isGrounded := True\<rparr>"

section \<open>Pools\<close>

text \<open>
  \<open>pool.find (p => !p.active) || null\<close> and the scanning loops that return at the first
  match hand out a reference to a pooled object; the model hands out its slot, the index
  of the first entry that satisfies the test.
\<close>

fun findSlot :: "('a \<Rightarrow> bool) \<Rightarrow> 'a list \<Rightarrow> nat option" where
  "findSlot P [] = None"
| "findSlot P (x # xs) = (if P x then Some 0 else map_option Suc (findSlot P xs))"

section \<open>Particles\<close>

record Particle =
  mesh :: object3d
  color :: nat
  opacity :: real
  active :: bool
  velocity :: vec3
  life :: real
  maxLife :: real

definition Particle_new :: Particle where
  "Particle_new = \<lparr>mesh = object3d_new\<lparr>visible := False\<rparr>, color = 0xffffff, opacity = 1,
     active = False, velocity = vec3_new 0 0 0, life = 0, maxLife = 1\<rparr>"

definition Particle_activate ::
  "vec3 \<Rightarrow> vec3 \<Rightarrow> nat \<Rightarrow> real \<Rightarrow> real \<Rightarrow> Particle \<Rightarrow> Particle" where
  "Particle_activate pos vel col lif sz p =
     p\<lparr>mesh := (mesh p)\<lparr>position := pos,
                          scale := vec3_new (sz / 0.15) (sz / 0.15) (sz / 0.15),
                          visible := True\<rparr>,
       velocity := vel, color := col, opacity := 1, active := True, life := lif, maxLife := lif\<rparr>"

definition Particle_deactivate :: "Particle \<Rightarrow> Particle" where
  "Particle_deactivate p = p\<lparr>mesh := (mesh p)\<lparr>visible := False\<rparr>, active := False\<rparr>"

text \<open>
  \<open>life / maxLife\<close>: \<open>maxLife\<close> is 1 in a fresh particle and the positive lifetime of the
  burst afterwards, so the division is by a positive number.
\<close>

definition Particle_update :: "real \<Rightarrow> Particle \<Rightarrow> Particle" where
  "Particle_update dt p =
     (if \<not> active p then p
      else
        (let m = mesh p;
             m1 = m\<lparr>position := vec3_add (position m) (vec3_multiplyScalar (velocity p) dt)\<rparr>;
             v1 = (velocity p)\<lparr>vy := vy (velocity p) - 15 * dt\<rparr>;
             r = rotation m1;
             m2 = m1\<lparr>rotation := r\<lparr>vx := vx r + 8 * dt, vz := vz r + 6 * dt\<rparr>\<rparr>;
             life1 = life p - dt;
             t = max 0 (life1 / maxLife p);
             s = t * (vx (scale m2) / max t 0.01);
             m3 = m2\<lparr>scale := vec3_new s s s\<rparr>;
             p1 = p\<lparr>mesh := m3, velocity := v1, life := life1, opacity := t\<rparr>
         in if life p1 \<le> 0 then Particle_deactivate p1 else p1))"

record ParticleSystem =
  pool :: "Particle list"

definition ParticleSystem_new :: "nat \<Rightarrow> ParticleSystem" where
  "ParticleSystem_new poolSize = \<lparr>pool = replicate poolSize Particle_new\<rparr>"

definition ParticleSystem_getInactive :: "ParticleSystem \<Rightarrow> nat option" where
  "ParticleSystem_getInactive ps = findSlot (\<lambda>p. \<not> active p) (pool ps)"

text \<open>
  The three bursts. Each round of the loop takes a free slot or breaks; the draws are in
  the order in which the source evaluates them.
\<close>

fun ParticleSystem_spawnShatter ::
  "vec3 \<Rightarrow> nat \<Rightarrow> nat \<Rightarrow> ParticleSystem \<Rightarrow> env \<Rightarrow> ParticleSystem \<times> env" where
  "ParticleSystem_spawnShatter pos col 0 ps e = (ps, e)"
| "ParticleSystem_spawnShatter pos col (Suc count) ps e =
     (case ParticleSystem_getInactive ps of
        None \<Rightarrow> (ps, e)
      | Some i \<Rightarrow>
          (let (r1, e1) = Math_random e;
               (r2, e2) = Math_random e1;
               (r3, e3) = Math_random e2;
               vel = vec3_new ((r1 - 0.5) * 12) (r2 * 8 + 2) ((r3 - 0.5) * 12);
               (r4, e4) = Math_random e3;
               sz = 0.08 + r4 * 0.15;
               (r5, e5) = Math_random e4;
               p = Particle_activate pos vel col (0.8 + r5 * 0.5) sz (pool ps ! i)
           in ParticleSystem_spawnShatter pos col count (ps\<lparr>pool := (pool ps)[i := p]\<rparr>) e5))"

definition explosion_colors :: "nat list" where
  "explosion_colors = [0xff3300, 0xff6600, 0xffcc00, 0xff0000]"

fun ParticleSystem_spawnExplosion ::
  "vec3 \<Rightarrow> nat \<Rightarrow> ParticleSystem \<Rightarrow> env \<Rightarrow> ParticleSystem \<times> env" where
  "ParticleSystem_spawnExplosion pos 0 ps e = (ps, e)"
| "ParticleSystem_spawnExplosion pos (Suc count) ps e =
     (case ParticleSystem_getInactive ps of
        None \<Rightarrow> (ps, e)
      | Some i \<Rightarrow>
          (let (r1, e1) = Math_random e;
               angle = r1 * pi * 2;
               (r2, e2) = Math_random e1;
               upAngle = r2 * pi * 0.6;
               (r3, e3) = Math_random e2;
               force = 6 + r3 * 10;
               vel = vec3_new (cos angle * sin upAngle * force) (cos upAngle * force + 3)
                       (sin angle * sin upAngle * force);
               (r4, e4) = Math_random e3;
               col = explosion_colors ! nat \<lfloor>r4 * real (length explosion_colors)\<rfloor>;
               (r5, e5) = Math_random e4;
               sz = 0.1 + r5 * 0.25;
               (r6, e6) = Math_random e5;
               p = Particle_activate pos vel col (0.6 + r6 * 0.6) sz (pool ps ! i)
           in ParticleSystem_spawnExplosion pos count (ps\<lparr>pool := (pool ps)[i := p]\<rparr>) e6))"

fun ParticleSystem_spawnPickup ::
  "vec3 \<Rightarrow> nat \<Rightarrow> nat \<Rightarrow> ParticleSystem \<Rightarrow> env \<Rightarrow> ParticleSystem \<times> env" where
  "ParticleSystem_spawnPickup pos col 0 ps e = (ps, e)"
| "ParticleSystem_spawnPickup pos col (Suc count) ps e =
     (case ParticleSystem_getInactive ps of
        None \<Rightarrow> (ps, e)
      | Some i \<Rightarrow>
          (let (r1, e1) = Math_random e;
               (r2, e2) = Math_random e1;
               (r3, e3) = Math_random e2;
               vel = vec3_new ((r1 - 0.5) * 6) (r2 * 6 + 3) ((r3 - 0.5) * 6);
               (r4, e4) = Math_random e3;
               p = Particle_activate pos vel col (0.5 + r4 * 0.3) 0.1 (pool ps ! i)
           in ParticleSystem_spawnPickup pos col count (ps\<lparr>pool := (pool ps)[i := p]\<rparr>) e4))"

definition ParticleSystem_update :: "real \<Rightarrow> ParticleSystem \<Rightarrow> ParticleSystem" where
  "ParticleSystem_update dt ps =
     ps\<lparr>pool := map (\<lambda>p. if active p then Particle_update dt p else p) (pool ps)\<rparr>"

definition ParticleSystem_reset :: "ParticleSystem \<Rightarrow> ParticleSystem" where
  "ParticleSystem_reset ps = ps\<lparr>pool := map Particle_deactivate (pool ps)\<rparr>"

section \<open>Obstacles\<close>

definition OBSTACLE_COLORS :: "nat list" where
  "OBSTACLE_COLORS = [0xff0055, 0xff6600, 0xffcc00, 0x00ff88, 0x0088ff, 0xff3366]"

definition EXPLOSIVE_COLOR :: nat where
  "EXPLOSIVE_COLOR = 0xff0000"

record Obstacle =
  mesh :: object3d
  color :: nat
  active :: bool
  speed :: real
  isExplosive :: bool
  rotSpeed :: vec3
  boundingBox :: box3

definition Obstacle_new :: Obstacle where
  "Obstacle_new = \<lparr>mesh = object3d_new\<lparr>visible := False\<rparr>, color = 0xff0055, active = False,
     speed = 0, isExplosive = False, rotSpeed = vec3_new 0 0 0, boundingBox = Box3_new\<rparr>"

definition Obstacle_activate ::
  "real \<Rightarrow> real \<Rightarrow> real \<Rightarrow> bool \<Rightarrow> Obstacle \<Rightarrow> env \<Rightarrow> Obstacle \<times> env" where
  "Obstacle_activate x z spd explosive ob e =
     (let (r1, e1) = Math_random e;
          ob1 = ob\<lparr>mesh := (mesh ob)\<lparr>position := vec3_new x (0.6 + r1 * 1.5) z, visible := True\<rparr>,
                   active := True, speed := spd, isExplosive := explosive\<rparr>;
          (ob2, e2) =
            (if explosive then
               (let (r2, e') = Math_random e1;
                    s = 0.9 + r2 * 0.3
                in (ob1\<lparr>color := EXPLOSIVE_COLOR, mesh := (mesh ob1)\<lparr>scale := vec3_new s s s\<rparr>\<rparr>, e'))
             else
               (let (r2, e') = Math_random e1;
                    colorIndex = nat \<lfloor>r2 * real (length OBSTACLE_COLORS)\<rfloor>;
                    (r3, e'') = Math_random e';
                    s = 0.7 + r3 * 0.7
                in (ob1\<lparr>color := OBSTACLE_COLORS ! colorIndex,
                        mesh := (mesh ob1)\<lparr>scale := vec3_new s s s\<rparr>\<rparr>, e'')));
          (r4, e4) = Math_random e2;
          (r5, e5) = Math_random e4;
          (r6, e6) = Math_random e5
      in (ob2\<lparr>rotSpeed := vec3_new ((r4 - 0.5) * 4) ((r5 - 0.5) * 4) ((r6 - 0.5) * 4)\<rparr>, e6))"

definition Obstacle_deactivate :: "Obstacle \<Rightarrow> Obstacle" where
  "Obstacle_deactivate ob =
     ob\<lparr>mesh := (mesh ob)\<lparr>visible := False\<rparr>, active := False, isExplosive := False\<rparr>"

text \<open>The pulse of an explosive obstacle only changes materials and is left out.\<close>

definition Obstacle_update :: "real \<Rightarrow> env \<Rightarrow> Obstacle \<Rightarrow> Obstacle" where
  "Obstacle_update dt e ob =
     (if \<not> active ob then ob
      else
        (let m = mesh ob;
             m1 = m\<lparr>position := (position m)\<lparr>vz := vz (position m) + speed ob * dt\<rparr>\<rparr>;
             m2 = m1\<lparr>rotation := vec3_add (rotation m1) (vec3_multiplyScalar (rotSpeed ob) dt)\<rparr>
         in ob\<lparr>mesh := m2, boundingBox := setFromObject e m2\<rparr>))"

definition Obstacle_getColor :: "Obstacle \<Rightarrow> nat" where
  "Obstacle_getColor ob = color ob"

record ObstacleManager =
  pool :: "Obstacle list"
  spawnTimer :: real
  spawnInterval :: real
  baseSpeed :: real
  spawnZ :: real
  despawnZ :: real
  trackWidth :: real

definition ObstacleManager_new :: "nat \<Rightarrow> ObstacleManager" where
  "ObstacleManager_new poolSize = \<lparr>pool = replicate poolSize Obstacle_new, spawnTimer = 0,
     spawnInterval = 1.2, baseSpeed = 15, spawnZ = - 80, despawnZ = 10, trackWidth = 10\<rparr>"

definition ObstacleManager_getInactive :: "ObstacleManager \<Rightarrow> nat option" where
  "ObstacleManager_getInactive om = findSlot (\<lambda>ob. \<not> active ob) (pool om)"

text \<open>
  \<open>forceExplosive || Math.random () < 0.15\<close>: the draw is made only when the left operand
  is false.
\<close>

definition ObstacleManager_spawnObstacle ::
  "real \<Rightarrow> bool \<Rightarrow> ObstacleManager \<Rightarrow> env \<Rightarrow> ObstacleManager \<times> env" where
  "ObstacleManager_spawnObstacle spd forceExplosive om e =
     (case ObstacleManager_getInactive om of
        None \<Rightarrow> (om, e)
      | Some i \<Rightarrow>
          (let halfTrack = trackWidth om / 2 - 1;
               (r1, e1) = Math_random e;
               x = (r1 * 2 - 1) * halfTrack;
               (explosive, e2) =
                 (if forceExplosive then (True, e1)
                  else (let (r2, e') = Math_random e1 in (r2 < 0.15, e')));
               (ob, e3) = Obstacle_activate x (spawnZ om) spd explosive (pool om ! i) e2
           in (om\<lparr>pool := (pool om)[i := ob]\<rparr>, e3)))"

text \<open>The loop over the pool at the end of \<open>ObstacleManager.update\<close>.\<close>

definition ObstacleManager_updatePool :: "real \<Rightarrow> env \<Rightarrow> ObstacleManager \<Rightarrow> ObstacleManager" where
  "ObstacleManager_updatePool dt e om =
     om\<lparr>pool := map (\<lambda>ob. if \<not> active ob then ob
                          else (let ob1 = Obstacle_update dt e ob
                                in if vz (position (mesh ob1)) > despawnZ om
                                   then Obstacle_deactivate ob1 else ob1))
                   (pool om)\<rparr>"

definition ObstacleManager_update ::
  "real \<Rightarrow> int \<Rightarrow> ObstacleManager \<Rightarrow> env \<Rightarrow> ObstacleManager \<times> env" where
  "ObstacleManager_update dt score om e =
     (let d = difficulty score;
          currentSpeed = baseSpeed om + d * 5;
          currentInterval = max 0.3 (spawnInterval om - d * 0.25);
          om1 = om\<lparr>spawnTimer := spawnTimer om + dt\<rparr>;
          (om5, e5) =
            (if spawnTimer om1 \<ge> currentInterval then
               (let om2 = om1\<lparr>spawnTimer := 0\<rparr>;
                    (om3, e3) = ObstacleManager_spawnObstacle currentSpeed False om2 e;
                    (om4, e4) =
                      (if d > 1 then
                         (let (r, e') = Math_random e3
                          in if r < 0.3 then ObstacleManager_spawnObstacle currentSpeed False om3 e'
                             else (om3, e'))
                       else (om3, e3))
                in if d > 2.5 then
                     (let (r, e') = Math_random e4
                      in if r < 0.2 then ObstacleManager_spawnObstacle currentSpeed False om4 e'
                         else (om4, e'))
                   else (om4, e4))
             else (om1, e))
      in (ObstacleManager_updatePool dt e5 om5, e5))"

text \<open>The collision record \<open>{ obstacle, isExplosive, position, color }\<close>; \<open>obstacle\<close> is the slot.\<close>

record Hit =
  obstacle :: nat
  isExplosive :: bool
  position :: vec3
  color :: nat

definition ObstacleManager_checkCollision :: "box3 \<Rightarrow> ObstacleManager \<Rightarrow> Hit option" where
  "ObstacleManager_checkCollision playerBBox om =
     (case findSlot (\<lambda>ob. Obstacle.active ob \<and> intersectsBox playerBBox (Obstacle.boundingBox ob))
             (pool om) of
        None \<Rightarrow> None
      | Some i \<Rightarrow>
          (let ob = pool om ! i
           in Some \<lparr>obstacle = i, isExplosive = Obstacle.isExplosive ob,
                    position = object3d.position (Obstacle.mesh ob),
                    color = Obstacle_getColor ob\<rparr>))"

definition ObstacleManager_destroyObstacle :: "nat \<Rightarrow> ObstacleManager \<Rightarrow> ObstacleManager" where
  "ObstacleManager_destroyObstacle i om =
     om\<lparr>pool := (pool om)[i := Obstacle_deactivate (pool om ! i)]\<rparr>"

definition ObstacleManager_getActiveObstacles :: "ObstacleManager \<Rightarrow> Obstacle list" where
  "ObstacleManager_getActiveObstacles om = filter Obstacle.active (pool om)"

definition ObstacleManager_reset :: "ObstacleManager \<Rightarrow> ObstacleManager" where
  "ObstacleManager_reset om = om\<lparr>pool := map Obstacle_deactivate (pool om), spawnTimer := 0\<rparr>"

section \<open>Power-ups\<close>

text \<open>\<open>type\<close> is \<open>null\<close> (\<open>None\<close>) in a power-up that is not active.\<close>

record PowerUp =
  mesh :: object3d
  active :: bool
  type :: "POWERUP_TYPES option"
  speed :: real
  boundingBox :: box3
  baseY :: real

definition PowerUp_new :: PowerUp where
  "PowerUp_new = \<lparr>mesh = object3d_new\<lparr>visible := False\<rparr>, active = False, type = None,
     speed = 0, boundingBox = Box3_new, baseY = 1.2\<rparr>"

definition PowerUp_activate :: "real \<Rightarrow> real \<Rightarrow> real \<Rightarrow> POWERUP_TYPES \<Rightarrow> PowerUp \<Rightarrow> PowerUp" where
  "PowerUp_activate x z spd ty pu =
     pu\<lparr>type := Some ty,
        mesh := (mesh pu)\<lparr>object3d.position := vec3_new x (baseY pu) z, visible := True\<rparr>,
        active := True, speed := spd\<rparr>"

definition PowerUp_deactivate :: "PowerUp \<Rightarrow> PowerUp" where
  "PowerUp_deactivate pu = pu\<lparr>mesh := (mesh pu)\<lparr>visible := False\<rparr>, active := False, type := None\<rparr>"

definition PowerUp_update :: "real \<Rightarrow> PowerUp \<Rightarrow> env \<Rightarrow> PowerUp \<times> env" where
  "PowerUp_update dt pu e =
     (if \<not> active pu then (pu, e)
      else
        (let m = mesh pu;
             p1 = (object3d.position m)\<lparr>vz := vz (object3d.position m) + speed pu * dt\<rparr>;
             (now, e1) = Date_now e;
             p2 = p1\<lparr>vy := baseY pu + sin (real_of_int now * 0.004) * 0.3\<rparr>;
             r = rotation m;
             c = child_rotation m;
             m1 = m\<lparr>object3d.position := p2, rotation := r\<lparr>vy := vy r + 3 * dt\<rparr>,
                    child_rotation := c\<lparr>vx := vx c + 2 * dt, vz := vz c + 1.5 * dt\<rparr>\<rparr>
         in (pu\<lparr>mesh := m1, boundingBox := expandByScalar (setFromObject e1 m1) 0.2\<rparr>, e1)))"

record PowerUpManager =
  pool :: "PowerUp list"
  spawnTimer :: real
  spawnInterval :: real
  spawnZ :: real
  despawnZ :: real
  trackWidth :: real
  activePowerUp :: "ActivePowerUp option"

definition PowerUpManager_new :: "nat \<Rightarrow> PowerUpManager" where
  "PowerUpManager_new poolSize = \<lparr>pool = replicate poolSize PowerUp_new, spawnTimer = 0,
     spawnInterval = 8, spawnZ = - 80, despawnZ = 10, trackWidth = 10, activePowerUp = None\<rparr>"

definition PowerUpManager_getInactive :: "PowerUpManager \<Rightarrow> nat option" where
  "PowerUpManager_getInactive pm = findSlot (\<lambda>pu. \<not> active pu) (pool pm)"

definition PowerUpManager_randomType :: "env \<Rightarrow> POWERUP_TYPES \<times> env" where
  "PowerUpManager_randomType e =
     (let types = [SHIELD, DOUBLE, SHATTER];
          (r, e1) = Math_random e
      in (types ! nat \<lfloor>r * real (length types)\<rfloor>, e1))"

text \<open>The loop over the pool in \<open>PowerUpManager.update\<close>; every update reads the clock.\<close>

fun PowerUpManager_updatePool ::
  "real \<Rightarrow> real \<Rightarrow> PowerUp list \<Rightarrow> env \<Rightarrow> PowerUp list \<times> env" where
  "PowerUpManager_updatePool dt dz [] e = ([], e)"
| "PowerUpManager_updatePool dt dz (pu # pus) e =
     (if \<not> active pu then
        (let (pus', e') = PowerUpManager_updatePool dt dz pus e in (pu # pus', e'))
      else
        (let (pu1, e1) = PowerUp_update dt pu e;
             pu2 = (if vz (object3d.position (mesh pu1)) > dz then PowerUp_deactivate pu1 else pu1);
             (pus', e') = PowerUpManager_updatePool dt dz pus e1
         in (pu2 # pus', e')))"

text \<open>The countdown at the end of \<open>PowerUpManager.update\<close>.\<close>

definition tickActivePowerUp :: "real \<Rightarrow> ActivePowerUp option \<Rightarrow> ActivePowerUp option" where
  "tickActivePowerUp dt ap =
     (case ap of
        None \<Rightarrow> None
      | Some a \<Rightarrow>
          (let a1 = a\<lparr>timeLeft := timeLeft a - dt\<rparr>
           in if timeLeft a1 \<le> 0 then None else Some a1))"

text \<open>The spawn attempt of \<open>PowerUpManager.update\<close>, made when the spawn timer has run out.\<close>

definition PowerUpManager_trySpawn ::
  "real \<Rightarrow> PowerUpManager \<Rightarrow> env \<Rightarrow> PowerUpManager \<times> env" where
  "PowerUpManager_trySpawn currentSpeed pm e =
     (let (r, e1) = Math_random e
      in if r < 0.6 then
           (case PowerUpManager_getInactive pm of
              None \<Rightarrow> (pm, e1)
            | Some i \<Rightarrow>
                (let halfTrack = trackWidth pm / 2 - 1;
                     (r2, e2) = Math_random e1;
                     x = (r2 * 2 - 1) * halfTrack;
                     (ty, e') = PowerUpManager_randomType e2;
                     pu = PowerUp_activate x (spawnZ pm) currentSpeed ty (pool pm ! i)
                 in (pm\<lparr>pool := (pool pm)[i := pu]\<rparr>, e')))
         else (pm, e1))"

definition PowerUpManager_update ::
  "real \<Rightarrow> int \<Rightarrow> PowerUpManager \<Rightarrow> env \<Rightarrow> PowerUpManager \<times> env" where
  "PowerUpManager_update dt score pm e =
     (let d = difficulty score;
          currentSpeed = 15 + d * 5;
          pm1 = pm\<lparr>spawnTimer := spawnTimer pm + dt\<rparr>;
          interval = max 5 (spawnInterval pm1 - d * 0.5);
          (pm3, e3) =
            (if spawnTimer pm1 \<ge> interval
             then PowerUpManager_trySpawn currentSpeed (pm1\<lparr>spawnTimer := 0\<rparr>) e
             else (pm1, e));
          (pool', e4) = PowerUpManager_updatePool dt (despawnZ pm3) (pool pm3) e3
      in (pm3\<lparr>pool := pool', activePowerUp := tickActivePowerUp dt (activePowerUp pm3)\<rparr>, e4))"

text \<open>The pickup record \<open>{ type, color, position }\<close>.\<close>

record Pickup =
  type :: POWERUP_TYPES
  color :: nat
  position :: vec3

text \<open>
  An exception of the JavaScript runtime, as a value: \<open>config.duration\<close> where \<open>config\<close> is
  \<open>POWERUP_CONFIG[null]\<close>, that is \<open>undefined\<close>.
\<close>

datatype error = TypeError

definition PowerUpManager_checkCollision ::
  "box3 \<Rightarrow> PowerUpManager \<Rightarrow> error + (Pickup option \<times> PowerUpManager)" where
  "PowerUpManager_checkCollision playerBBox pm =
     (case findSlot (\<lambda>pu. PowerUp.active pu \<and> intersectsBox playerBBox (PowerUp.boundingBox pu))
             (pool pm) of
        None \<Rightarrow> Inr (None, pm)
      | Some i \<Rightarrow>
          (let pu = pool pm ! i
           in case PowerUp.type pu of
                None \<Rightarrow> Inl TypeError
              | Some ty \<Rightarrow>
                  (let config = POWERUP_CONFIG ty;
                       pu1 = PowerUp_deactivate pu;
                       ap = \<lparr>ActivePowerUp.type = ty, timeLeft = duration config,
                             color = config.color config\<rparr>
                   in Inr (Some \<lparr>Pickup.type = ty, color = config.color config,
                                 position = object3d.position (PowerUp.mesh pu1)\<rparr>,
                           pm\<lparr>pool := (pool pm)[i := pu1], activePowerUp := Some ap\<rparr>))))"

definition PowerUpManager_hasShield :: "PowerUpManager \<Rightarrow> bool" where
  "PowerUpManager_hasShield pm \<longleftrightarrow> map_option ActivePowerUp.type (activePowerUp pm) = Some SHIELD"

definition PowerUpManager_hasDouble :: "PowerUpManager \<Rightarrow> bool" where
  "PowerUpManager_hasDouble pm \<longleftrightarrow> map_option ActivePowerUp.type (activePowerUp pm) = Some DOUBLE"

definition PowerUpManager_hasShatter :: "PowerUpManager \<Rightarrow> bool" where
  "PowerUpManager_hasShatter pm \<longleftrightarrow> map_option ActivePowerUp.type (activePowerUp pm) = Some SHATTER"

definition PowerUpManager_getActiveInfo :: "PowerUpManager \<Rightarrow> ActivePowerUp option" where
  "PowerUpManager_getActiveInfo pm = activePowerUp pm"

definition PowerUpManager_reset :: "PowerUpManager \<Rightarrow> PowerUpManager" where
  "PowerUpManager_reset pm =
     pm\<lparr>pool := map PowerUp_deactivate (pool pm), activePowerUp := None, spawnTimer := 0\<rparr>"

section \<open>The input manager\<close>

datatype KeyCode =
  KeyA | ArrowLeft | KeyD | ArrowRight | KeyW | ArrowUp | KeyS | ArrowDown | Space | Enter | OtherKey

datatype ActionName = A_moveLeft | A_moveRight | A_moveForward | A_moveBackward | A_jump

record InputManager =
  actions :: InputActions
  jumpPressed :: bool

definition InputManager_new :: InputManager where
  "InputManager_new = \<lparr>actions = \<lparr>moveLeft = False, moveRight = False, moveForward = False,
     moveBackward = False, jump = False\<rparr>, jumpPressed = False\<rparr>"

fun InputManager_mapKey :: "KeyCode \<Rightarrow> ActionName option" where
  "InputManager_mapKey KeyA = Some A_moveLeft"
| "InputManager_mapKey ArrowLeft = Some A_moveLeft"
| "InputManager_mapKey KeyD = Some A_moveRight"
| "InputManager_mapKey ArrowRight = Some A_moveRight"
| "InputManager_mapKey KeyW = Some A_moveForward"
| "InputManager_mapKey ArrowUp = Some A_moveForward"
| "InputManager_mapKey KeyS = Some A_moveBackward"
| "InputManager_mapKey ArrowDown = Some A_moveBackward"
| "InputManager_mapKey Space = Some A_jump"
| "InputManager_mapKey Enter = None"
| "InputManager_mapKey OtherKey = None"

text \<open>\<open>this.actions[action] = value\<close>.\<close>

fun setAction :: "ActionName \<Rightarrow> bool \<Rightarrow> InputActions \<Rightarrow> InputActions" where
  "setAction A_moveLeft b a = a\<lparr>moveLeft := b\<rparr>"
| "setAction A_moveRight b a = a\<lparr>moveRight := b\<rparr>"
| "setAction A_moveForward b a = a\<lparr>moveForward := b\<rparr>"
| "setAction A_moveBackward b a = a\<lparr>moveBackward := b\<rparr>"
| "setAction A_jump b a = a\<lparr>jump := b\<rparr>"

definition InputManager_onKeyDown :: "KeyCode \<Rightarrow> InputManager \<Rightarrow> InputManager" where
  "InputManager_onKeyDown code im =
     (case InputManager_mapKey code of
        None \<Rightarrow> im
      | Some action \<Rightarrow>
          (if action = A_jump then
             (if \<not> jumpPressed im
              then im\<lparr>actions := (actions im)\<lparr>jump := True\<rparr>, jumpPressed := True\<rparr>
              else im)
           else im\<lparr>actions := setAction action True (actions im)\<rparr>))"

definition InputManager_onKeyUp :: "KeyCode \<Rightarrow> InputManager \<Rightarrow> InputManager" where
  "InputManager_onKeyUp code im =
     (case InputManager_mapKey code of
        None \<Rightarrow> im
      | Some action \<Rightarrow>
          (if action = A_jump then im\<lparr>jumpPressed := False\<rparr>
           else im\<lparr>actions := setAction action False (actions im)\<rparr>))"

definition InputManager_consumeJump :: "InputManager \<Rightarrow> bool \<times> InputManager" where
  "InputManager_consumeJump im =
     (if jump (actions im) then (True, im\<lparr>actions := (actions im)\<lparr>jump := False\<rparr>\<rparr>)
      else (False, im))"

section \<open>The game controller\<close>

datatype STATE = MENU | PLAYING | GAME_OVER

text \<open>The calls made on the audio manager, in the order in which they are made.\<close>

datatype Sound = playJump | playHit | playExplosion | playPickup | playShatter | playMilestone

text \<open>
  The fields of \<open>Game\<close> that the simulation reads. The renderer, the camera position, the
  scenery and the DOM are not modelled; \<open>audio\<close> is the log of sounds requested and \<open>env\<close>
  the host environment.
\<close>

record Game =
  state :: STATE
  score :: int
  highScore :: int
  scoreTimer :: real
  lastMilestone :: int
  accumulator :: real
  shakeIntensity :: real
  shakeDuration :: real
  input :: InputManager
  audio :: "Sound list"
  player :: Player
  obstacles :: ObstacleManager
  powerups :: PowerUpManager
  particles :: ParticleSystem
  env :: env

text \<open>
  \<open>fixedTimeStep\<close> is assigned once, in the constructor, and never again. The constructor
  reads the stored high score and takes the default pool sizes; its last statement, a first
  call of \<open>_animate\<close>, is the first frame the host delivers.
\<close>

definition fixedTimeStep :: real where
  "fixedTimeStep = 1 / 60"

definition Game_new :: "int \<Rightarrow> env \<Rightarrow> Game" where
  "Game_new storedHighScore e = \<lparr>state = MENU, score = 0, highScore = storedHighScore,
     scoreTimer = 0, lastMilestone = 0, accumulator = 0, shakeIntensity = 0, shakeDuration = 0,
     input = InputManager_new, audio = [], player = Player_new,
     obstacles = ObstacleManager_new 40, powerups = PowerUpManager_new 10,
     particles = ParticleSystem_new 200, env = e\<rparr>"

text \<open>
  \<open>_startGame\<close>, statement by statement and in the order of the source (the statements that
  only touch the clock object or the DOM are left out).
\<close>

definition Game_startGame_statements :: "(Game \<Rightarrow> Game) list" where
  "Game_startGame_statements =
     [\<lambda>g. g\<lparr>state := PLAYING\<rparr>,
      \<lambda>g. g\<lparr>score := 0\<rparr>,
      \<lambda>g. g\<lparr>scoreTimer := 0\<rparr>,
      \<lambda>g. g\<lparr>lastMilestone := 0\<rparr>,
      \<lambda>g. g\<lparr>shakeIntensity := 0\<rparr>,
      \<lambda>g. g\<lparr>shakeDuration := 0\<rparr>,
      \<lambda>g. g\<lparr>player := Player_reset (player g)\<rparr>,
      \<lambda>g. g\<lparr>obstacles := ObstacleManager_reset (obstacles g)\<rparr>,
      \<lambda>g. g\<lparr>powerups := PowerUpManager_reset (powerups g)\<rparr>,
      \<lambda>g. g\<lparr>particles := ParticleSystem_reset (particles g)\<rparr>]"

text \<open>The state after the first \<open>n\<close> statements of a body.\<close>

definition runStatements :: "('s \<Rightarrow> 's) list \<Rightarrow> nat \<Rightarrow> 's \<Rightarrow> 's" where
  "runStatements body n s = foldl (\<lambda>t f. f t) s (take n body)"

definition Game_startGame :: "Game \<Rightarrow> Game" where
  "Game_startGame g = runStatements Game_startGame_statements (length Game_startGame_statements) g"

definition Game_triggerShake :: "real \<Rightarrow> real \<Rightarrow> Game \<Rightarrow> Game" where
  "Game_triggerShake intensity dur g = g\<lparr>shakeIntensity := intensity, shakeDuration := dur\<rparr>"

definition Game_gameOver :: "Game \<Rightarrow> Game" where
  "Game_gameOver g =
     (let g1 = g\<lparr>state := GAME_OVER\<rparr>;
          g2 = g1\<lparr>audio := audio g1 @ [playHit]\<rparr>;
          (ps, e1) = ParticleSystem_spawnExplosion (object3d.position (Player.mesh (player g2))) 50
                       (particles g2) (env g2);
          g3 = g2\<lparr>particles := ps, env := e1\<rparr>;
          g4 = Game_triggerShake 0.5 0.3 g3;
          isNewHigh = score g4 > highScore g4
      in if isNewHigh then g4\<lparr>highScore := score g4\<rparr> else g4)"

text \<open>The handler \<open>startGame\<close> of \<open>_setupStartHandlers\<close>.\<close>

definition Game_startHandler :: "Game \<Rightarrow> Game" where
  "Game_startHandler g =
     (if state g = MENU then Game_startGame g
      else if state g = GAME_OVER then Game_startGame g
      else g)"

text \<open>
  \<open>_updateCamera\<close>: the camera itself belongs to the renderer; what remains is the
  countdown of the shake and its two draws.
\<close>

definition Game_updateCamera :: "real \<Rightarrow> Game \<Rightarrow> Game" where
  "Game_updateCamera dt g =
     (if shakeDuration g > 0 then
        (let g1 = g\<lparr>shakeDuration := shakeDuration g - dt\<rparr>;
             (r1, e1) = Math_random (env g1);
             (r2, e2) = Math_random e1
         in g1\<lparr>env := e2\<rparr>)
      else g)"

text \<open>\<open>_update\<close>, in the sections of the source. First the jump.\<close>

definition Game_handleJump :: "Game \<Rightarrow> Game" where
  "Game_handleJump g =
     (let (j, im) = InputManager_consumeJump (input g);
          g1 = g\<lparr>input := im\<rparr>
      in if j then
           (let (ok, p) = Player_jump (player g1);
                g2 = g1\<lparr>player := p\<rparr>
            in if ok then g2\<lparr>audio := audio g2 @ [playJump]\<rparr> else g2)
         else g1)"

text \<open>The subsystems (the scenery, which only scrolls, is left out).\<close>

definition Game_updateSubsystems :: "real \<Rightarrow> Game \<Rightarrow> Game" where
  "Game_updateSubsystems dt g =
     (let activePU = PowerUpManager_getActiveInfo (powerups g);
          (p, e1) = Player_update dt (actions (input g)) activePU (player g) (env g);
          (om, e2) = ObstacleManager_update dt (score g) (obstacles g) e1;
          (pm, e3) = PowerUpManager_update dt (score g) (powerups g) e2;
          ps = ParticleSystem_update dt (particles g)
      in g\<lparr>player := p, obstacles := om, powerups := pm, particles := ps, env := e3\<rparr>)"

text \<open>The score increment and the milestone sound.\<close>

definition Game_scoreIncrement :: "real \<Rightarrow> Game \<Rightarrow> Game" where
  "Game_scoreIncrement dt g =
     (let g1 = g\<lparr>scoreTimer := scoreTimer g + dt\<rparr>
      in if scoreTimer g1 \<ge> 0.1 then
           (let g2 = g1\<lparr>scoreTimer := 0\<rparr>;
                points = (if PowerUpManager_hasDouble (powerups g2) then 2 else 1);
                g3 = g2\<lparr>score := score g2 + points\<rparr>;
                milestone = \<lfloor>real_of_int (score g3) / 50\<rfloor>
            in if milestone > lastMilestone g3
               then g3\<lparr>lastMilestone := milestone, audio := audio g3 @ [playMilestone]\<rparr>
               else g3)
         else g1)"

text \<open>The power-up collision.\<close>

definition Game_powerUpCollision :: "Game \<Rightarrow> error + Game" where
  "Game_powerUpCollision g =
     (case PowerUpManager_checkCollision (Player.boundingBox (player g)) (powerups g) of
        Inl err \<Rightarrow> Inl err
      | Inr (puPickup, pm) \<Rightarrow>
          (let g1 = g\<lparr>powerups := pm\<rparr>
           in case puPickup of
                None \<Rightarrow> Inr g1
              | Some pk \<Rightarrow>
                  (let g2 = g1\<lparr>audio := audio g1 @ [playPickup]\<rparr>;
                       (ps, e1) = ParticleSystem_spawnPickup (Pickup.position pk) (Pickup.color pk) 15
                                    (particles g2) (env g2)
                   in Inr (g2\<lparr>particles := ps, env := e1\<rparr>))))"

text \<open>The obstacle collision, and the camera on the paths that do not return early.\<close>

definition Game_obstacleCollision :: "real \<Rightarrow> Game \<Rightarrow> Game" where
  "Game_obstacleCollision dt g =
     (case ObstacleManager_checkCollision (Player.boundingBox (player g)) (obstacles g) of
        None \<Rightarrow> Game_updateCamera dt g
      | Some hit \<Rightarrow>
          (if PowerUpManager_hasShatter (powerups g) then
             (let (ps, e1) = ParticleSystem_spawnShatter (Hit.position hit) (Hit.color hit) 25
                               (particles g) (env g);
                  g1 = g\<lparr>particles := ps, env := e1\<rparr>;
                  g2 = g1\<lparr>obstacles := ObstacleManager_destroyObstacle (obstacle hit) (obstacles g1)\<rparr>;
                  g3 = g2\<lparr>audio := audio g2 @ [playShatter]\<rparr>;
                  g4 = g3\<lparr>score := score g3 + 5\<rparr>
              in Game_updateCamera dt g4)
           else if PowerUpManager_hasShield (powerups g) then
             (let (ps, e1) = ParticleSystem_spawnShatter (Hit.position hit) 0x00ffff 12
                               (particles g) (env g);
                  g1 = g\<lparr>particles := ps, env := e1\<rparr>;
                  g2 = g1\<lparr>obstacles := ObstacleManager_destroyObstacle (obstacle hit) (obstacles g1)\<rparr>
              in Game_updateCamera dt g2)
           else
             (let g1 =
                    (if Hit.isExplosive hit then
                       (let (ps, e1) = ParticleSystem_spawnExplosion (Hit.position hit) 50
                                         (particles g) (env g);
                            h1 = g\<lparr>particles := ps, env := e1\<rparr>;
                            h2 = h1\<lparr>audio := audio h1 @ [playExplosion]\<rparr>
                        in Game_triggerShake 0.8 0.4 h2)
                     else g)
              in Game_gameOver g1)))"

text \<open>The state of a tick when the collisions are resolved.\<close>

definition Game_beforeCollisions :: "real \<Rightarrow> Game \<Rightarrow> Game" where
  "Game_beforeCollisions dt g =
     Game_scoreIncrement dt (Game_updateSubsystems dt (Game_handleJump g))"

definition Game_update :: "real \<Rightarrow> Game \<Rightarrow> error + Game" where
  "Game_update dt g =
     (if state g \<noteq> PLAYING then Inr g
      else
        (case Game_powerUpCollision (Game_beforeCollisions dt g) of
           Inl err \<Rightarrow> Inl err
         | Inr g1 \<Rightarrow> Inr (Game_obstacleCollision dt g1)))"

text \<open>
  \<open>_animate\<close>. The raw delta is what \<open>clock.getDelta ()\<close> returns for the frame. One round
  of the loop is a tick of the fixed step followed by the decrement of the accumulator; an
  exception leaves the loop.
\<close>

definition Game_fixedStep :: "Game \<Rightarrow> error + Game" where
  "Game_fixedStep g =
     (case Game_update fixedTimeStep g of
        Inl err \<Rightarrow> Inl err
      | Inr g1 \<Rightarrow> Inr (g1\<lparr>accumulator := accumulator g1 - fixedTimeStep\<rparr>))"

function Game_animateLoop :: "Game \<Rightarrow> error + Game" where
  "Game_animateLoop g =
     (if accumulator g \<ge> fixedTimeStep then
        (case Game_fixedStep g of
           Inl err \<Rightarrow> Inl err
         | Inr g1 \<Rightarrow> Game_animateLoop g1)
      else Inr g)"
  by pat_completeness auto

definition Game_animateIdle :: "Game \<Rightarrow> Game" where
  "Game_animateIdle g =
     (let g1 = g\<lparr>particles := ParticleSystem_update 0.016 (particles g)\<rparr>;
          m = Player.mesh (player g1);
          r = rotation m
      in g1\<lparr>player := (player g1)\<lparr>Player.mesh := m\<lparr>rotation := r\<lparr>vy := vy r + 0.02\<rparr>\<rparr>\<rparr>\<rparr>)"

definition Game_animate :: "real \<Rightarrow> Game \<Rightarrow> error + Game" where
  "Game_animate rawDt g =
     (if state g = PLAYING then
        (let dt = min rawDt 0.1
         in Game_animateLoop (g\<lparr>accumulator := accumulator g + dt\<rparr>))
      else Inr (Game_animateIdle g))"

text \<open>
  What the host delivers: animation frames, key events and pointer events (a click on the
  menu or the game-over screen, a touch on the canvas). A key press reaches the input
  manager and, for Space and Enter, the start handler.
\<close>

datatype HostEvent = AnimationFrame real | KeyDown KeyCode | KeyUp KeyCode | Pointer

fun Game_dispatch :: "HostEvent \<Rightarrow> Game \<Rightarrow> error + Game" where
  "Game_dispatch (AnimationFrame rawDt) g = Game_animate rawDt g"
| "Game_dispatch (KeyDown code) g =
     (let g1 = g\<lparr>input := InputManager_onKeyDown code (input g)\<rparr>
      in Inr (if code = Space \<or> code = Enter then Game_startHandler g1 else g1))"
| "Game_dispatch (KeyUp code) g = Inr (g\<lparr>input := InputManager_onKeyUp code (input g)\<rparr>)"
| "Game_dispatch Pointer g = Inr (Game_startHandler g)"

fun Game_run :: "HostEvent list \<Rightarrow> Game \<Rightarrow> error + Game" where
  "Game_run [] g = Inr g"
| "Game_run (ev # evs) g =
     (case Game_dispatch ev g of Inl err \<Rightarrow> Inl err | Inr g1 \<Rightarrow> Game_run evs g1)"

section \<open>Auxiliary notions\<close>

text \<open>
  Every active power-up carries a kind (\<open>activate\<close> sets it, \<open>deactivate\<close> clears it); the
  constructor establishes this and every operation keeps it.
\<close>

definition PowerUpManager_typed :: "PowerUpManager \<Rightarrow> bool" where
  "PowerUpManager_typed pm \<longleftrightarrow>
     (\<forall>pu\<in>set (PowerUpManager.pool pm). PowerUp.active pu \<longrightarrow> PowerUp.type pu \<noteq> None)"

text \<open>The capacities of the three pools: obstacles, power-ups, particles.\<close>

definition Game_capacities :: "Game \<Rightarrow> nat \<times> nat \<times> nat" where
  "Game_capacities g =
     (length (ObstacleManager.pool (obstacles g)), length (PowerUpManager.pool (powerups g)),
      length (ParticleSystem.pool (particles g)))"

text \<open>A given number of rounds of the loop of \<open>_animate\<close>, whatever the accumulator holds.\<close>

fun Game_fixedSteps :: "nat \<Rightarrow> Game \<Rightarrow> error + Game" where
  "Game_fixedSteps 0 g = Inr g"
| "Game_fixedSteps (Suc n) g =
     (case Game_fixedStep g of Inl err \<Rightarrow> Inl err | Inr g1 \<Rightarrow> Game_fixedSteps n g1)"

text \<open>A field of the state an operation returns, when it returns one.\<close>

definition after :: "('s \<Rightarrow> 'a) \<Rightarrow> error + 's \<Rightarrow> 'a option" where
  "after field r = (case r of Inl err \<Rightarrow> None | Inr s \<Rightarrow> Some (field s))"

text \<open>
  Successive calls of \<open>PowerUpManager.update\<close>, each with its step and the score of the
  moment, and no pickup in between.
\<close>

fun PowerUpManager_updates ::
  "(real \<times> int) list \<Rightarrow> PowerUpManager \<Rightarrow> env \<Rightarrow> PowerUpManager \<times> env" where
  "PowerUpManager_updates [] pm e = (pm, e)"
| "PowerUpManager_updates ((dt, s) # steps) pm e =
     (let (pm1, e1) = PowerUpManager_update dt s pm e in PowerUpManager_updates steps pm1 e1)"

text \<open>
  A sample host for concrete runs: every draw is one half, the clock stands at zero, and
  the box of a mesh is the unit cube around its position.
\<close>

definition sampleBox :: "object3d \<Rightarrow> box3" where
  "sampleBox m = \<lparr>bmin = vec3_addScalar (object3d.position m) (- 0.5),
                  bmax = vec3_addScalar (object3d.position m) 0.5\<rparr>"

definition sampleEnv :: env where
  "sampleEnv = \<lparr>random_tape = (\<lambda>k. 0.5), random_pos = 0, clock_tape = (\<lambda>k. 0), clock_pos = 0,
     setFromObject = sampleBox\<rparr>"

text \<open>The host apart from the positions reached on its two tapes.\<close>

definition host :: "env \<Rightarrow> (nat \<Rightarrow> real) \<times> (nat \<Rightarrow> int) \<times> (object3d \<Rightarrow> box3)" where
  "host e = (random_tape e, clock_tape e, setFromObject e)"

text \<open>A session just started on the sample host, from a stored high score of 0.\<close>

definition startedGame :: Game where
  "startedGame = Game_startGame (Game_new 0 sampleEnv)"

text \<open>Pools in which every slot is taken.\<close>

definition fullObstacles :: ObstacleManager where
  "fullObstacles =
     (ObstacleManager_new 2)\<lparr>ObstacleManager.pool := replicate 2 (Obstacle_new\<lparr>Obstacle.active := True\<rparr>)\<rparr>"

definition fullPowerUps :: PowerUpManager where
  "fullPowerUps =
     (PowerUpManager_new 2)\<lparr>PowerUpManager.pool :=
        replicate 2 (PowerUp_new\<lparr>PowerUp.active := True, PowerUp.type := Some SHIELD\<rparr>)\<rparr>"

definition fullParticles :: ParticleSystem where
  "fullParticles = \<lparr>ParticleSystem.pool = replicate 2 (Particle_new\<lparr>Particle.active := True\<rparr>)\<rparr>"

text \<open>
  The box of the player at the start position on the sample host, and a power-up manager
  whose first slot holds an active SHIELD overlapping it.
\<close>

definition startBox :: box3 where
  "startBox = \<lparr>bmin = vec3_new (- 0.4) 0.2 (- 0.4), bmax = vec3_new 0.4 1 0.4\<rparr>"

definition shieldAhead :: PowerUpManager where
  "shieldAhead =
     (PowerUpManager_new 10)\<lparr>PowerUpManager.pool :=
        PowerUp_new\<lparr>PowerUp.active := True, PowerUp.type := Some SHIELD,
          PowerUp.boundingBox := \<lparr>bmin = vec3_new (- 0.7) 0.5 (- 0.7), bmax = vec3_new 0.7 1.9 0.7\<rparr>\<rparr>
        # replicate 9 PowerUp_new\<rparr>"

text \<open>
  A session that has ended with a score of 7 while DOUBLE was active.
\<close>

definition endedGame :: Game where
  "endedGame =
     startedGame\<lparr>state := GAME_OVER, score := 7,
       powerups := (powerups startedGame)\<lparr>activePowerUp :=
         Some \<lparr>ActivePowerUp.type = DOUBLE, timeLeft = 3, color = 0xffcc00\<rparr>\<rparr>\<rparr>"

text \<open>
  An obstacle at the player's feet, as the sample host boxes it, and an obstacle manager
  whose first two slots hold it; a box that touches the start box of the player on one
  face.
\<close>

definition obstacleAt :: "real \<Rightarrow> Obstacle" where
  "obstacleAt z =
     Obstacle_new\<lparr>Obstacle.mesh := object3d_new\<lparr>object3d.position := vec3_new 0 0.6 z\<rparr>,
       Obstacle.active := True, Obstacle.speed := 15,
       Obstacle.boundingBox := sampleBox (object3d_new\<lparr>object3d.position := vec3_new 0 0.6 z\<rparr>)\<rparr>"

definition obstacleAhead :: Obstacle where
  "obstacleAhead = obstacleAt (- 0.5)"

definition twoObstaclesAhead :: ObstacleManager where
  "twoObstaclesAhead =
     (ObstacleManager_new 40)\<lparr>ObstacleManager.pool :=
        [obstacleAhead, obstacleAhead] @ replicate 38 Obstacle_new\<rparr>"

text \<open>
  A session on the sample host with a score of 48, the two obstacles at the player's feet,
  and SHATTER active with 0.02 seconds left.
\<close>

definition shatterGame :: Game where
  "shatterGame =
     startedGame\<lparr>score := 48, obstacles := twoObstaclesAhead,
       powerups := (powerups startedGame)\<lparr>activePowerUp :=
         Some \<lparr>ActivePowerUp.type = SHATTER, timeLeft = 0.02, color = 0xff3300\<rparr>\<rparr>\<rparr>"

definition touchingBox :: box3 where
  "touchingBox = \<lparr>bmin = vec3_new (- 0.4) 0.2 (- 1.4), bmax = vec3_new 0.4 1 (- 0.4)\<rparr>"

definition heldLeft :: InputActions where
  "heldLeft = \<lparr>moveLeft = True, moveRight = False, moveForward = False, moveBackward = False,
     jump = False\<rparr>"

section \<open>Slots: lemmas\<close>

lemma findSlot_None_iff: "findSlot P xs = None \<longleftrightarrow> (\<forall>x\<in>set xs. \<not> P x)"
  by (induction xs) auto

lemma findSlot_Some:
  "findSlot P xs = Some i \<Longrightarrow> i < length xs \<and> P (xs ! i) \<and> (\<forall>j<i. \<not> P (xs ! j))"
proof (induction xs arbitrary: i)
  case Nil
  then show ?case by simp
next
  case (Cons x xs)
  show ?case
  proof (cases "P x")
    case True
    with Cons.prems show ?thesis by simp
  next
    case False
    with Cons.prems obtain k where k: "findSlot P xs = Some k" "i = Suc k" by auto
    from Cons.IH [OF k(1)] have ih: "k < length xs" "P (xs ! k)" "\<forall>j<k. \<not> P (xs ! j)" by auto
    have "\<forall>j<Suc k. \<not> P ((x # xs) ! j)"
    proof (intro allI impI)
      fix j assume "j < Suc k"
      then show "\<not> P ((x # xs) ! j)" using False ih(3) by (cases j) auto
    qed
    with ih k show ?thesis by simp
  qed
qed

section \<open>Particles: lemmas\<close>

lemma Math_random_range: "0 \<le> fst (Math_random e) \<and> fst (Math_random e) < 1"
  by (simp add: Math_random_def frac_lt_1)

lemma Math_random_setFromObject [simp]: "setFromObject (snd (Math_random e)) = setFromObject e"
  by (simp add: Math_random_def)

lemma Date_now_setFromObject [simp]: "setFromObject (snd (Date_now e)) = setFromObject e"
  by (simp add: Date_now_def)

lemma ParticleSystem_getInactive_full:
  "\<forall>p\<in>set (ParticleSystem.pool ps). Particle.active p \<Longrightarrow> ParticleSystem_getInactive ps = None"
  by (simp add: ParticleSystem_getInactive_def findSlot_None_iff)

lemma spawnShatter_length [simp]:
  "length (ParticleSystem.pool (fst (ParticleSystem_spawnShatter pos col n ps e))) =
     length (ParticleSystem.pool ps)"
  by (induction pos col n ps e rule: ParticleSystem_spawnShatter.induct)
     (auto simp: Let_def split: option.splits prod.splits)

lemma spawnExplosion_length [simp]:
  "length (ParticleSystem.pool (fst (ParticleSystem_spawnExplosion pos n ps e))) =
     length (ParticleSystem.pool ps)"
  by (induction pos n ps e rule: ParticleSystem_spawnExplosion.induct)
     (auto simp: Let_def split: option.splits prod.splits)

lemma spawnPickup_length [simp]:
  "length (ParticleSystem.pool (fst (ParticleSystem_spawnPickup pos col n ps e))) =
     length (ParticleSystem.pool ps)"
  by (induction pos col n ps e rule: ParticleSystem_spawnPickup.induct)
     (auto simp: Let_def split: option.splits prod.splits)

lemma spawnShatter_full:
  "\<forall>p\<in>set (ParticleSystem.pool ps). Particle.active p \<Longrightarrow>
     ParticleSystem_spawnShatter pos col n ps e = (ps, e)"
  by (cases n) (simp_all add: ParticleSystem_getInactive_full)

lemma spawnExplosion_full:
  "\<forall>p\<in>set (ParticleSystem.pool ps). Particle.active p \<Longrightarrow>
     ParticleSystem_spawnExplosion pos n ps e = (ps, e)"
  by (cases n) (simp_all add: ParticleSystem_getInactive_full)

lemma spawnPickup_full:
  "\<forall>p\<in>set (ParticleSystem.pool ps). Particle.active p \<Longrightarrow>
     ParticleSystem_spawnPickup pos col n ps e = (ps, e)"
  by (cases n) (simp_all add: ParticleSystem_getInactive_full)

lemma ParticleSystem_update_length [simp]:
  "length (ParticleSystem.pool (ParticleSystem_update dt ps)) = length (ParticleSystem.pool ps)"
  by (simp add: ParticleSystem_update_def)

lemma ParticleSystem_reset_length [simp]:
  "length (ParticleSystem.pool (ParticleSystem_reset ps)) = length (ParticleSystem.pool ps)"
  by (simp add: ParticleSystem_reset_def)

lemma ParticleSystem_reset_inactive:
  "\<forall>p\<in>set (ParticleSystem.pool (ParticleSystem_reset ps)). \<not> Particle.active p"
  by (simp add: ParticleSystem_reset_def Particle_deactivate_def)

section \<open>Obstacles: lemmas\<close>

lemma ObstacleManager_getInactive_full:
  "\<forall>ob\<in>set (ObstacleManager.pool om). Obstacle.active ob \<Longrightarrow> ObstacleManager_getInactive om = None"
  by (simp add: ObstacleManager_getInactive_def findSlot_None_iff)

lemma spawnObstacle_length [simp]:
  "length (ObstacleManager.pool (fst (ObstacleManager_spawnObstacle spd f om e))) =
     length (ObstacleManager.pool om)"
  by (simp add: ObstacleManager_spawnObstacle_def Let_def case_prod_beta split: option.splits)

lemma spawnObstacle_full:
  "\<forall>ob\<in>set (ObstacleManager.pool om). Obstacle.active ob \<Longrightarrow>
     ObstacleManager_spawnObstacle spd f om e = (om, e)"
  by (simp add: ObstacleManager_spawnObstacle_def ObstacleManager_getInactive_full)

lemma ObstacleManager_updatePool_length [simp]:
  "length (ObstacleManager.pool (ObstacleManager_updatePool dt e om)) = length (ObstacleManager.pool om)"
  by (simp add: ObstacleManager_updatePool_def)

lemma ObstacleManager_update_length [simp]:
  "length (ObstacleManager.pool (fst (ObstacleManager_update dt s om e))) =
     length (ObstacleManager.pool om)"
  by (simp add: ObstacleManager_update_def Let_def case_prod_beta)

lemma ObstacleManager_destroyObstacle_length [simp]:
  "length (ObstacleManager.pool (ObstacleManager_destroyObstacle i om)) = length (ObstacleManager.pool om)"
  by (simp add: ObstacleManager_destroyObstacle_def)

lemma ObstacleManager_reset_length [simp]:
  "length (ObstacleManager.pool (ObstacleManager_reset om)) = length (ObstacleManager.pool om)"
  by (simp add: ObstacleManager_reset_def)

lemma ObstacleManager_reset_inactive:
  "\<forall>ob\<in>set (ObstacleManager.pool (ObstacleManager_reset om)). \<not> Obstacle.active ob"
  by (simp add: ObstacleManager_reset_def Obstacle_deactivate_def)


section \<open>Power-ups: lemmas\<close>

lemma PowerUp_update_active [simp]:
  "PowerUp.active (fst (PowerUp_update dt pu e)) = PowerUp.active pu"
  by (simp add: PowerUp_update_def Let_def case_prod_beta)

lemma PowerUp_update_type [simp]:
  "PowerUp.type (fst (PowerUp_update dt pu e)) = PowerUp.type pu"
  by (simp add: PowerUp_update_def Let_def case_prod_beta)

lemma PowerUp_update_setFromObject [simp]:
  "setFromObject (snd (PowerUp_update dt pu e)) = setFromObject e"
  by (simp add: PowerUp_update_def Let_def case_prod_beta)

lemma PowerUpManager_updatePool_length [simp]:
  "length (fst (PowerUpManager_updatePool dt dz pus e)) = length pus"
  by (induction pus arbitrary: e) (simp_all add: Let_def case_prod_beta)

lemma PowerUpManager_updatePool_typed:
  "\<forall>pu\<in>set pus. PowerUp.active pu \<longrightarrow> PowerUp.type pu \<noteq> None \<Longrightarrow>
     \<forall>pu\<in>set (fst (PowerUpManager_updatePool dt dz pus e)).
        PowerUp.active pu \<longrightarrow> PowerUp.type pu \<noteq> None"
  by (induction pus arbitrary: e) (simp_all add: Let_def case_prod_beta PowerUp_deactivate_def)

lemma PowerUpManager_getInactive_full:
  "\<forall>pu\<in>set (PowerUpManager.pool pm). PowerUp.active pu \<Longrightarrow> PowerUpManager_getInactive pm = None"
  by (simp add: PowerUpManager_getInactive_def findSlot_None_iff)

lemma PowerUpManager_trySpawn_length [simp]:
  "length (PowerUpManager.pool (fst (PowerUpManager_trySpawn spd pm e))) =
     length (PowerUpManager.pool pm)"
  by (simp add: PowerUpManager_trySpawn_def Let_def case_prod_beta split: option.splits)

lemma PowerUpManager_trySpawn_full:
  "\<forall>pu\<in>set (PowerUpManager.pool pm). PowerUp.active pu \<Longrightarrow>
     fst (PowerUpManager_trySpawn spd pm e) = pm"
  by (simp add: PowerUpManager_trySpawn_def Let_def case_prod_beta PowerUpManager_getInactive_full)

lemma PowerUpManager_trySpawn_activePowerUp [simp]:
  "activePowerUp (fst (PowerUpManager_trySpawn spd pm e)) = activePowerUp pm"
  by (simp add: PowerUpManager_trySpawn_def Let_def case_prod_beta split: option.splits)

lemma PowerUpManager_trySpawn_typed:
  "PowerUpManager_typed pm \<Longrightarrow> PowerUpManager_typed (fst (PowerUpManager_trySpawn spd pm e))"
  by (auto simp: PowerUpManager_trySpawn_def PowerUpManager_typed_def Let_def case_prod_beta
        PowerUp_activate_def split: option.splits dest!: set_update_subset_insert [THEN subsetD])

lemma PowerUpManager_update_length [simp]:
  "length (PowerUpManager.pool (fst (PowerUpManager_update dt s pm e))) =
     length (PowerUpManager.pool pm)"
  by (simp add: PowerUpManager_update_def Let_def case_prod_beta)

lemma PowerUpManager_update_activePowerUp:
  "activePowerUp (fst (PowerUpManager_update dt s pm e)) = tickActivePowerUp dt (activePowerUp pm)"
  by (simp add: PowerUpManager_update_def Let_def case_prod_beta)

lemma PowerUpManager_typed_updatePool:
  "PowerUpManager_typed pm \<Longrightarrow>
     PowerUpManager_typed
       (pm\<lparr>PowerUpManager.pool := fst (PowerUpManager_updatePool dt dz (PowerUpManager.pool pm) e),
            activePowerUp := a\<rparr>)"
  using PowerUpManager_updatePool_typed [of "PowerUpManager.pool pm" dt dz e]
  by (simp add: PowerUpManager_typed_def)

lemma PowerUpManager_update_typed:
  assumes "PowerUpManager_typed pm"
  shows "PowerUpManager_typed (fst (PowerUpManager_update dt s pm e))"
proof -
  have a: "PowerUpManager_typed (pm\<lparr>PowerUpManager.spawnTimer := t\<rparr>)" for t
    using assms by (simp add: PowerUpManager_typed_def)
  show ?thesis
    unfolding PowerUpManager_update_def Let_def case_prod_beta
    by (simp add: a PowerUpManager_trySpawn_typed PowerUpManager_typed_updatePool)
qed

lemma PowerUpManager_checkCollision_total:
  assumes "PowerUpManager_typed pm"
  shows "\<exists>r pm'. PowerUpManager_checkCollision bb pm = Inr (r, pm') \<and>
           length (PowerUpManager.pool pm') = length (PowerUpManager.pool pm) \<and>
           PowerUpManager_typed pm'"
proof (cases "findSlot (\<lambda>pu. PowerUp.active pu \<and> intersectsBox bb (PowerUp.boundingBox pu))
                (PowerUpManager.pool pm)")
  case None
  then show ?thesis using assms by (simp add: PowerUpManager_checkCollision_def)
next
  case (Some i)
  from findSlot_Some [OF Some]
  have i: "i < length (PowerUpManager.pool pm)" "PowerUp.active (PowerUpManager.pool pm ! i)" by auto
  with assms obtain ty where ty: "PowerUp.type (PowerUpManager.pool pm ! i) = Some ty"
    by (auto simp: PowerUpManager_typed_def)
  have "PowerUpManager_typed
          (pm\<lparr>PowerUpManager.pool := (PowerUpManager.pool pm)[i := PowerUp_deactivate (PowerUpManager.pool pm ! i)],
               activePowerUp := a\<rparr>)" for a
    using assms
    by (auto simp: PowerUpManager_typed_def PowerUp_deactivate_def
        dest!: set_update_subset_insert [THEN subsetD])
  then show ?thesis using Some ty
    by (simp add: PowerUpManager_checkCollision_def Let_def)
qed

lemma PowerUpManager_reset_typed: "PowerUpManager_typed (PowerUpManager_reset pm)"
  by (simp add: PowerUpManager_typed_def PowerUpManager_reset_def PowerUp_deactivate_def)

lemma PowerUpManager_reset_length [simp]:
  "length (PowerUpManager.pool (PowerUpManager_reset pm)) = length (PowerUpManager.pool pm)"
  by (simp add: PowerUpManager_reset_def)

lemma PowerUpManager_reset_inactive:
  "\<forall>pu\<in>set (PowerUpManager.pool (PowerUpManager_reset pm)). \<not> PowerUp.active pu"
  by (simp add: PowerUpManager_reset_def PowerUp_deactivate_def)


section \<open>The player: lemmas\<close>

lemma Player_updatePowerUpVisuals_trackWidth [simp]:
  "Player.trackWidth (Player_updatePowerUpVisuals ap p) = Player.trackWidth p"
  by (simp add: Player_updatePowerUpVisuals_def Let_def split: option.splits POWERUP_TYPES.splits)

lemma Player_updatePowerUpVisuals_position [simp]:
  "object3d.position (Player.mesh (Player_updatePowerUpVisuals ap p)) =
     object3d.position (Player.mesh p)"
  by (simp add: Player_updatePowerUpVisuals_def Let_def split: option.splits POWERUP_TYPES.splits)

lemma Player_update_trackWidth [simp]:
  "Player.trackWidth (fst (Player_update dt a ap p e)) = Player.trackWidth p"
  by (simp add: Player_update_def Player_setX_def Player_setY_def Let_def case_prod_beta)

lemma Player_update_x:
  "vx (object3d.position (Player.mesh (fst (Player_update dt a ap p e)))) =
     clamp (vx (object3d.position (Player.mesh p))
              - (if moveLeft a then Player.moveSpeed p * dt else 0)
              + (if moveRight a then Player.moveSpeed p * dt else 0))
           (- (Player.trackWidth p / 2 - 0.5)) (Player.trackWidth p / 2 - 0.5)"
  by (simp add: Player_update_def Player_setX_def Player_setY_def Let_def case_prod_beta)

lemma Player_update_boundingBox:
  "Player.boundingBox (fst (Player_update dt a ap p e)) =
     expandByScalar (setFromObject e (Player.mesh (fst (Player_update dt a ap p e)))) (- 0.1)"
  by (simp add: Player_update_def Let_def case_prod_beta)

lemma Player_update_setFromObject [simp]:
  "setFromObject (snd (Player_update dt a ap p e)) = setFromObject e"
  by (simp add: Player_update_def Let_def case_prod_beta)

section \<open>The phases of a tick\<close>

lemma Game_handleJump_frame [simp]:
  "state (Game_handleJump g) = state g"
  "score (Game_handleJump g) = score g"
  "scoreTimer (Game_handleJump g) = scoreTimer g"
  "lastMilestone (Game_handleJump g) = lastMilestone g"
  "accumulator (Game_handleJump g) = accumulator g"
  "highScore (Game_handleJump g) = highScore g"
  "obstacles (Game_handleJump g) = obstacles g"
  "powerups (Game_handleJump g) = powerups g"
  "particles (Game_handleJump g) = particles g"
  "env (Game_handleJump g) = env g"
  by (simp_all add: Game_handleJump_def Let_def case_prod_beta)

lemma Game_handleJump_audio:
  "filter (\<lambda>s. s = playMilestone) (audio (Game_handleJump g)) =
     filter (\<lambda>s. s = playMilestone) (audio g)"
  by (simp add: Game_handleJump_def Let_def case_prod_beta)

lemma Game_handleJump_trackWidth [simp]:
  "Player.trackWidth (player (Game_handleJump g)) = Player.trackWidth (player g)"
  by (simp add: Game_handleJump_def Let_def case_prod_beta Player_jump_def InputManager_consumeJump_def)

lemma Game_updateSubsystems_frame [simp]:
  "state (Game_updateSubsystems dt g) = state g"
  "score (Game_updateSubsystems dt g) = score g"
  "scoreTimer (Game_updateSubsystems dt g) = scoreTimer g"
  "lastMilestone (Game_updateSubsystems dt g) = lastMilestone g"
  "accumulator (Game_updateSubsystems dt g) = accumulator g"
  "highScore (Game_updateSubsystems dt g) = highScore g"
  "audio (Game_updateSubsystems dt g) = audio g"
  "input (Game_updateSubsystems dt g) = input g"
  by (simp_all add: Game_updateSubsystems_def Let_def case_prod_beta)

lemma Game_updateSubsystems_pools [simp]:
  "length (ObstacleManager.pool (obstacles (Game_updateSubsystems dt g))) =
     length (ObstacleManager.pool (obstacles g))"
  "length (PowerUpManager.pool (powerups (Game_updateSubsystems dt g))) =
     length (PowerUpManager.pool (powerups g))"
  "length (ParticleSystem.pool (particles (Game_updateSubsystems dt g))) =
     length (ParticleSystem.pool (particles g))"
  by (simp_all add: Game_updateSubsystems_def Let_def case_prod_beta)

lemma Game_updateSubsystems_typed:
  "PowerUpManager_typed (powerups g) \<Longrightarrow> PowerUpManager_typed (powerups (Game_updateSubsystems dt g))"
  by (simp add: Game_updateSubsystems_def Let_def case_prod_beta PowerUpManager_update_typed)


lemma Game_updateSubsystems_player:
  "player (Game_updateSubsystems dt g) =
     fst (Player_update dt (actions (input g)) (activePowerUp (powerups g)) (player g) (env g))"
  by (simp add: Game_updateSubsystems_def Let_def case_prod_beta PowerUpManager_getActiveInfo_def)

lemma Game_scoreIncrement_frame [simp]:
  "state (Game_scoreIncrement dt g) = state g"
  "accumulator (Game_scoreIncrement dt g) = accumulator g"
  "highScore (Game_scoreIncrement dt g) = highScore g"
  "player (Game_scoreIncrement dt g) = player g"
  "obstacles (Game_scoreIncrement dt g) = obstacles g"
  "powerups (Game_scoreIncrement dt g) = powerups g"
  "particles (Game_scoreIncrement dt g) = particles g"
  "env (Game_scoreIncrement dt g) = env g"
  "input (Game_scoreIncrement dt g) = input g"
  by (simp_all add: Game_scoreIncrement_def Let_def)

lemma Game_scoreIncrement_score:
  "score (Game_scoreIncrement dt g) =
     score g + (if scoreTimer g + dt \<ge> 0.1
                then (if PowerUpManager_hasDouble (powerups g) then 2 else 1) else 0)"
  "scoreTimer (Game_scoreIncrement dt g) = (if scoreTimer g + dt \<ge> 0.1 then 0 else scoreTimer g + dt)"
  by (simp_all add: Game_scoreIncrement_def Let_def)

lemma Game_updateCamera_frame [simp]:
  "state (Game_updateCamera dt g) = state g"
  "score (Game_updateCamera dt g) = score g"
  "scoreTimer (Game_updateCamera dt g) = scoreTimer g"
  "lastMilestone (Game_updateCamera dt g) = lastMilestone g"
  "accumulator (Game_updateCamera dt g) = accumulator g"
  "highScore (Game_updateCamera dt g) = highScore g"
  "audio (Game_updateCamera dt g) = audio g"
  "input (Game_updateCamera dt g) = input g"
  "player (Game_updateCamera dt g) = player g"
  "obstacles (Game_updateCamera dt g) = obstacles g"
  "powerups (Game_updateCamera dt g) = powerups g"
  "particles (Game_updateCamera dt g) = particles g"
  by (simp_all add: Game_updateCamera_def Let_def case_prod_beta)

lemma Game_gameOver_frame [simp]:
  "state (Game_gameOver g) = GAME_OVER"
  "score (Game_gameOver g) = score g"
  "scoreTimer (Game_gameOver g) = scoreTimer g"
  "lastMilestone (Game_gameOver g) = lastMilestone g"
  "accumulator (Game_gameOver g) = accumulator g"
  "audio (Game_gameOver g) = audio g @ [playHit]"
  "input (Game_gameOver g) = input g"
  "player (Game_gameOver g) = player g"
  "obstacles (Game_gameOver g) = obstacles g"
  "powerups (Game_gameOver g) = powerups g"
  "length (ParticleSystem.pool (particles (Game_gameOver g))) = length (ParticleSystem.pool (particles g))"
  by (simp_all add: Game_gameOver_def Game_triggerShake_def Let_def case_prod_beta)

lemma Game_powerUpCollision_frame:
  assumes "Game_powerUpCollision g = Inr g'"
  shows "state g' = state g" "score g' = score g" "scoreTimer g' = scoreTimer g"
    "lastMilestone g' = lastMilestone g" "accumulator g' = accumulator g"
    "highScore g' = highScore g" "input g' = input g"
    "player g' = player g" "obstacles g' = obstacles g"
    "length (ParticleSystem.pool (particles g')) = length (ParticleSystem.pool (particles g))"
    "filter (\<lambda>s. s = playMilestone) (audio g') = filter (\<lambda>s. s = playMilestone) (audio g)"
  using assms
  by (auto simp: Game_powerUpCollision_def Let_def case_prod_beta split: sum.splits option.splits)

lemma Game_powerUpCollision_total:
  assumes "PowerUpManager_typed (powerups g)"
  shows "\<exists>g'. Game_powerUpCollision g = Inr g' \<and> PowerUpManager_typed (powerups g') \<and>
           length (PowerUpManager.pool (powerups g')) = length (PowerUpManager.pool (powerups g))"
proof -
  from PowerUpManager_checkCollision_total [OF assms, of "Player.boundingBox (player g)"]
  obtain r pm' where r: "PowerUpManager_checkCollision (Player.boundingBox (player g)) (powerups g) = Inr (r, pm')"
    "length (PowerUpManager.pool pm') = length (PowerUpManager.pool (powerups g))"
    "PowerUpManager_typed pm'" by blast
  then show ?thesis
    by (cases r) (simp_all add: Game_powerUpCollision_def Let_def case_prod_beta)
qed


lemma Game_obstacleCollision_frame [simp]:
  "scoreTimer (Game_obstacleCollision dt g) = scoreTimer g"
  "lastMilestone (Game_obstacleCollision dt g) = lastMilestone g"
  "accumulator (Game_obstacleCollision dt g) = accumulator g"
  "input (Game_obstacleCollision dt g) = input g"
  "player (Game_obstacleCollision dt g) = player g"
  "powerups (Game_obstacleCollision dt g) = powerups g"
  "length (ObstacleManager.pool (obstacles (Game_obstacleCollision dt g))) =
     length (ObstacleManager.pool (obstacles g))"
  "length (ParticleSystem.pool (particles (Game_obstacleCollision dt g))) =
     length (ParticleSystem.pool (particles g))"
  by (simp_all add: Game_obstacleCollision_def Game_triggerShake_def Let_def case_prod_beta
      split: option.splits)

lemma Game_obstacleCollision_audio:
  "filter (\<lambda>s. s = playMilestone) (audio (Game_obstacleCollision dt g)) =
     filter (\<lambda>s. s = playMilestone) (audio g)"
  by (simp add: Game_obstacleCollision_def Game_triggerShake_def Let_def case_prod_beta
      split: option.splits)

lemma Game_obstacleCollision_score:
  "score (Game_obstacleCollision dt g) =
     score g + (if ObstacleManager_checkCollision (Player.boundingBox (player g)) (obstacles g) \<noteq> None
                   \<and> PowerUpManager_hasShatter (powerups g) then 5 else 0)"
  by (simp add: Game_obstacleCollision_def Game_triggerShake_def Let_def case_prod_beta
      split: option.splits)

lemma Game_obstacleCollision_state:
  "state (Game_obstacleCollision dt g) =
     (if ObstacleManager_checkCollision (Player.boundingBox (player g)) (obstacles g) \<noteq> None
         \<and> \<not> PowerUpManager_hasShatter (powerups g) \<and> \<not> PowerUpManager_hasShield (powerups g)
      then GAME_OVER else state g)"
  by (simp add: Game_obstacleCollision_def Game_triggerShake_def Let_def case_prod_beta
      split: option.splits)

section \<open>A tick\<close>

lemma Game_update_not_PLAYING: "state g \<noteq> PLAYING \<Longrightarrow> Game_update dt g = Inr g"
  by (simp add: Game_update_def)

lemma Game_update_PLAYING:
  "state g = PLAYING \<Longrightarrow> Game_powerUpCollision (Game_beforeCollisions dt g) = Inr m \<Longrightarrow>
     Game_update dt g = Inr (Game_obstacleCollision dt m)"
  by (simp add: Game_update_def)

lemma Game_beforeCollisions_frame [simp]:
  "state (Game_beforeCollisions dt g) = state g"
  "accumulator (Game_beforeCollisions dt g) = accumulator g"
  "input (Game_beforeCollisions dt g) = input (Game_handleJump g)"
  by (simp_all add: Game_beforeCollisions_def)

lemma Game_beforeCollisions_capacities [simp]:
  "Game_capacities (Game_beforeCollisions dt g) = Game_capacities g"
  by (simp add: Game_beforeCollisions_def Game_capacities_def)

lemma Game_beforeCollisions_typed:
  "PowerUpManager_typed (powerups g) \<Longrightarrow> PowerUpManager_typed (powerups (Game_beforeCollisions dt g))"
  by (simp add: Game_beforeCollisions_def Game_updateSubsystems_typed)

lemma Game_update_accumulator:
  "Game_update dt g = Inr g' \<Longrightarrow> accumulator g' = accumulator g"
  by (auto simp: Game_update_def Game_powerUpCollision_frame split: if_splits sum.splits)

lemma Game_update_total:
  assumes "PowerUpManager_typed (powerups g)"
  shows "\<exists>g'. Game_update dt g = Inr g' \<and> PowerUpManager_typed (powerups g') \<and>
           Game_capacities g' = Game_capacities g"
proof (cases "state g = PLAYING")
  case False
  then show ?thesis using assms by (simp add: Game_update_not_PLAYING)
next
  case True
  from Game_powerUpCollision_total [OF Game_beforeCollisions_typed [OF assms, of dt]]
  obtain m where m: "Game_powerUpCollision (Game_beforeCollisions dt g) = Inr m"
    "PowerUpManager_typed (powerups m)"
    "length (PowerUpManager.pool (powerups m)) =
       length (PowerUpManager.pool (powerups (Game_beforeCollisions dt g)))" by blast
  have "Game_capacities m = Game_capacities (Game_beforeCollisions dt g)"
    using m(3) Game_powerUpCollision_frame(9,10) [OF m(1)] by (simp add: Game_capacities_def)
  moreover have "Game_capacities (Game_obstacleCollision dt m) = Game_capacities m"
    by (simp add: Game_capacities_def)
  ultimately have "Game_capacities (Game_obstacleCollision dt m) = Game_capacities g"
    by simp
  with m(2) show ?thesis
    using Game_update_PLAYING [OF True m(1)] by simp
qed

lemma Game_fixedStep_accumulator:
  "Game_fixedStep g = Inr g' \<Longrightarrow> accumulator g' = accumulator g - fixedTimeStep"
  by (auto simp: Game_fixedStep_def Game_update_accumulator split: sum.splits)

termination Game_animateLoop
proof (relation "measure (\<lambda>g. nat \<lfloor>accumulator g * 60\<rfloor>)")
  show "wf (measure (\<lambda>g. nat \<lfloor>accumulator g * 60\<rfloor>))" by simp
next
  fix g g1
  assume a: "fixedTimeStep \<le> accumulator g" and s: "Game_fixedStep g = Inr g1"
  from Game_fixedStep_accumulator [OF s] have "accumulator g1 * 60 = accumulator g * 60 - 1"
    by (simp add: fixedTimeStep_def)
  then have "\<lfloor>accumulator g1 * 60\<rfloor> = \<lfloor>accumulator g * 60\<rfloor> - 1" by simp
  moreover from a have "1 \<le> \<lfloor>accumulator g * 60\<rfloor>" by (simp add: fixedTimeStep_def le_floor_iff)
  ultimately show "(g1, g) \<in> measure (\<lambda>g. nat \<lfloor>accumulator g * 60\<rfloor>)" by simp
qed

section \<open>The loop of the frame\<close>

declare Game_animateLoop.simps [simp del]

lemma Game_fixedStep_total:
  assumes "PowerUpManager_typed (powerups g)"
  shows "\<exists>g'. Game_fixedStep g = Inr g' \<and> PowerUpManager_typed (powerups g') \<and>
           Game_capacities g' = Game_capacities g"
proof -
  from Game_update_total [OF assms, of fixedTimeStep]
  obtain g1 where "Game_update fixedTimeStep g = Inr g1" "PowerUpManager_typed (powerups g1)"
    "Game_capacities g1 = Game_capacities g" by blast
  then show ?thesis by (simp add: Game_fixedStep_def Game_capacities_def)
qed

lemma Game_fixedSteps_total:
  "PowerUpManager_typed (powerups g) \<Longrightarrow>
     \<exists>g'. Game_fixedSteps n g = Inr g' \<and> PowerUpManager_typed (powerups g') \<and>
          Game_capacities g' = Game_capacities g"
proof (induction n arbitrary: g)
  case 0
  then show ?case by simp
next
  case (Suc n)
  from Game_fixedStep_total [OF Suc.prems]
  obtain g1 where g1: "Game_fixedStep g = Inr g1" "PowerUpManager_typed (powerups g1)"
    "Game_capacities g1 = Game_capacities g" by blast
  from Suc.IH [OF g1(2)] g1(1,3) show ?case by simp
qed

lemma Game_fixedSteps_accumulator:
  "Game_fixedSteps n g = Inr g' \<Longrightarrow> accumulator g' = accumulator g - real n * fixedTimeStep"
proof (induction n arbitrary: g)
  case 0
  then show ?case by simp
next
  case (Suc n)
  from Suc.prems obtain g1 where g1: "Game_fixedStep g = Inr g1" "Game_fixedSteps n g1 = Inr g'"
    by (auto split: sum.splits)
  from Suc.IH [OF g1(2)] Game_fixedStep_accumulator [OF g1(1)] show ?case
    by (simp add: algebra_simps)
qed

lemma Game_animateLoop_fixedSteps:
  "Game_animateLoop g = Game_fixedSteps (nat \<lfloor>accumulator g / fixedTimeStep\<rfloor>) g"
proof (induction g rule: Game_animateLoop.induct)
  case (1 g)
  show ?case
  proof (cases "fixedTimeStep \<le> accumulator g")
    case False
    then have "accumulator g * 60 < 1" by (simp add: fixedTimeStep_def)
    then have "\<lfloor>accumulator g * 60\<rfloor> \<le> 0" by (simp add: floor_le_iff)
    then have "nat \<lfloor>accumulator g / fixedTimeStep\<rfloor> = 0" by (simp add: fixedTimeStep_def)
    with False show ?thesis by (subst Game_animateLoop.simps) simp
  next
    case True
    then have "1 \<le> \<lfloor>accumulator g * 60\<rfloor>" by (simp add: fixedTimeStep_def le_floor_iff)
    then obtain k where k: "nat \<lfloor>accumulator g / fixedTimeStep\<rfloor> = Suc k" "int k = \<lfloor>accumulator g * 60\<rfloor> - 1"
      by (cases "nat \<lfloor>accumulator g * 60\<rfloor>") (auto simp: fixedTimeStep_def)
    show ?thesis
    proof (cases "Game_fixedStep g")
      case (Inl err)
      with True k show ?thesis by (subst Game_animateLoop.simps) simp
    next
      case (Inr g1)
      from Game_fixedStep_accumulator [OF Inr] have "accumulator g1 * 60 = accumulator g * 60 - 1"
        by (simp add: fixedTimeStep_def)
      then have "\<lfloor>accumulator g1 * 60\<rfloor> = \<lfloor>accumulator g * 60\<rfloor> - 1" by simp
      with k have "nat \<lfloor>accumulator g1 / fixedTimeStep\<rfloor> = k" by (simp add: fixedTimeStep_def)
      with "1.IH" [OF True Inr] True Inr k show ?thesis
        by (subst Game_animateLoop.simps) simp
    qed
  qed
qed

lemma Game_startGame_eq:
  "Game_startGame g =
     g\<lparr>state := PLAYING, score := 0, scoreTimer := 0, lastMilestone := 0, shakeIntensity := 0,
       shakeDuration := 0, player := Player_reset (player g),
       obstacles := ObstacleManager_reset (obstacles g),
       powerups := PowerUpManager_reset (powerups g),
       particles := ParticleSystem_reset (particles g)\<rparr>"
  by (simp add: Game_startGame_def runStatements_def Game_startGame_statements_def)

lemma Game_startGame_typed: "PowerUpManager_typed (powerups (Game_startGame g))"
  by (simp add: Game_startGame_eq PowerUpManager_reset_typed)

lemma Game_startGame_capacities [simp]: "Game_capacities (Game_startGame g) = Game_capacities g"
  by (simp add: Game_startGame_eq Game_capacities_def)

lemma Game_new_capacities: "Game_capacities (Game_new hs e) = (40, 10, 200)"
  by (simp add: Game_new_def Game_capacities_def ObstacleManager_new_def PowerUpManager_new_def
      ParticleSystem_new_def)

lemma Game_new_typed: "PowerUpManager_typed (powerups (Game_new hs e))"
  by (simp add: Game_new_def PowerUpManager_typed_def PowerUpManager_new_def PowerUp_new_def)

lemma startedGame_facts:
  "state startedGame = PLAYING" "accumulator startedGame = 0" "score startedGame = 0"
  "PowerUpManager_typed (powerups startedGame)" "Game_capacities startedGame = (40, 10, 200)"
  by (simp_all add: startedGame_def Game_startGame_typed Game_new_capacities)
     (simp_all add: Game_startGame_eq Game_new_def)

section \<open>Runs\<close>

lemma Game_animateIdle_frame [simp]:
  "state (Game_animateIdle g) = state g"
  "powerups (Game_animateIdle g) = powerups g"
  "Game_capacities (Game_animateIdle g) = Game_capacities g"
  by (simp_all add: Game_animateIdle_def Let_def Game_capacities_def)

lemma Game_animate_total:
  assumes "PowerUpManager_typed (powerups g)"
  shows "\<exists>g'. Game_animate rawDt g = Inr g' \<and> PowerUpManager_typed (powerups g') \<and>
           Game_capacities g' = Game_capacities g"
proof (cases "state g = PLAYING")
  case True
  have t: "PowerUpManager_typed (powerups (g\<lparr>accumulator := a\<rparr>))"
    and c: "Game_capacities (g\<lparr>accumulator := a\<rparr>) = Game_capacities g" for a
    using assms by (simp_all add: Game_capacities_def)
  from Game_fixedSteps_total [OF t] c True show ?thesis
    by (simp add: Game_animate_def Let_def Game_animateLoop_fixedSteps)
next
  case False
  with assms show ?thesis by (simp add: Game_animate_def)
qed

lemma Game_startHandler_typed:
  "PowerUpManager_typed (powerups g) \<Longrightarrow> PowerUpManager_typed (powerups (Game_startHandler g))"
  by (simp add: Game_startHandler_def Game_startGame_typed)

lemma Game_startHandler_capacities [simp]:
  "Game_capacities (Game_startHandler g) = Game_capacities g"
  by (simp add: Game_startHandler_def)

lemma Game_dispatch_total:
  assumes "PowerUpManager_typed (powerups g)"
  shows "\<exists>g'. Game_dispatch ev g = Inr g' \<and> PowerUpManager_typed (powerups g') \<and>
           Game_capacities g' = Game_capacities g"
proof (cases ev)
  case (AnimationFrame rawDt)
  with Game_animate_total [OF assms] show ?thesis by simp
next
  case (KeyDown code)
  have "PowerUpManager_typed (powerups (g\<lparr>input := i\<rparr>))"
    "Game_capacities (g\<lparr>input := i\<rparr>) = Game_capacities g" for i
    using assms by (simp_all add: Game_capacities_def)
  with KeyDown show ?thesis by (simp add: Let_def Game_startHandler_typed)
next
  case (KeyUp code)
  with assms show ?thesis by (simp add: Game_capacities_def)
next
  case Pointer
  with assms show ?thesis by (simp add: Game_startHandler_typed)
qed

lemma Game_run_total:
  "PowerUpManager_typed (powerups g) \<Longrightarrow>
     \<exists>g'. Game_run evs g = Inr g' \<and> PowerUpManager_typed (powerups g') \<and>
          Game_capacities g' = Game_capacities g"
proof (induction evs arbitrary: g)
  case Nil
  then show ?case by simp
next
  case (Cons ev evs)
  from Game_dispatch_total [OF Cons.prems, of ev]
  obtain g1 where g1: "Game_dispatch ev g = Inr g1" "PowerUpManager_typed (powerups g1)"
    "Game_capacities g1 = Game_capacities g" by blast
  from Cons.IH [OF g1(2)] g1(1,3) show ?case by simp
qed

lemma Game_beforeCollisions_score:
  "score (Game_beforeCollisions dt g) =
     score g + (if 0.1 \<le> scoreTimer g + dt
                then (if PowerUpManager_hasDouble (powerups (Game_updateSubsystems dt (Game_handleJump g)))
                      then 2 else 1)
                else 0)"
  "scoreTimer (Game_beforeCollisions dt g) = (if 0.1 \<le> scoreTimer g + dt then 0 else scoreTimer g + dt)"
  by (simp_all add: Game_beforeCollisions_def Game_scoreIncrement_score)

section \<open>The cadence of the score\<close>







section \<open>Collisions and score\<close>

lemma ObstacleManager_checkCollision_Some:
  assumes "ObstacleManager_checkCollision bb om = Some hit"
  shows "obstacle hit < length (ObstacleManager.pool om)"
    "Obstacle.active (ObstacleManager.pool om ! obstacle hit)"
    "intersectsBox bb (Obstacle.boundingBox (ObstacleManager.pool om ! obstacle hit))"
    "\<forall>j<obstacle hit. \<not> (Obstacle.active (ObstacleManager.pool om ! j) \<and>
        intersectsBox bb (Obstacle.boundingBox (ObstacleManager.pool om ! j)))"
    "Hit.isExplosive hit = Obstacle.isExplosive (ObstacleManager.pool om ! obstacle hit)"
    "Hit.position hit = object3d.position (Obstacle.mesh (ObstacleManager.pool om ! obstacle hit))"
    "Hit.color hit = Obstacle.color (ObstacleManager.pool om ! obstacle hit)"
proof -
  from assms obtain i where i:
    "findSlot (\<lambda>ob. Obstacle.active ob \<and> intersectsBox bb (Obstacle.boundingBox ob))
       (ObstacleManager.pool om) = Some i"
    and h: "hit = \<lparr>obstacle = i, isExplosive = Obstacle.isExplosive (ObstacleManager.pool om ! i),
              position = object3d.position (Obstacle.mesh (ObstacleManager.pool om ! i)),
              color = Obstacle_getColor (ObstacleManager.pool om ! i)\<rparr>"
    by (auto simp: ObstacleManager_checkCollision_def Let_def split: option.splits)
  from findSlot_Some [OF i] h
  show "obstacle hit < length (ObstacleManager.pool om)"
    "Obstacle.active (ObstacleManager.pool om ! obstacle hit)"
    "intersectsBox bb (Obstacle.boundingBox (ObstacleManager.pool om ! obstacle hit))"
    "\<forall>j<obstacle hit. \<not> (Obstacle.active (ObstacleManager.pool om ! j) \<and>
        intersectsBox bb (Obstacle.boundingBox (ObstacleManager.pool om ! j)))"
    "Hit.isExplosive hit = Obstacle.isExplosive (ObstacleManager.pool om ! obstacle hit)"
    "Hit.position hit = object3d.position (Obstacle.mesh (ObstacleManager.pool om ! obstacle hit))"
    "Hit.color hit = Obstacle.color (ObstacleManager.pool om ! obstacle hit)"
    by (simp_all add: Obstacle_getColor_def)
qed

lemma ObstacleManager_destroyObstacle_inactive:
  "i < length (ObstacleManager.pool om) \<Longrightarrow>
     \<not> Obstacle.active (ObstacleManager.pool (ObstacleManager_destroyObstacle i om) ! i)"
  by (simp add: ObstacleManager_destroyObstacle_def Obstacle_deactivate_def)

lemma Game_obstacleCollision_obstacles:
  assumes "ObstacleManager_checkCollision (Player.boundingBox (player g)) (obstacles g) = Some hit"
  shows "obstacles (Game_obstacleCollision dt g) =
     (if PowerUpManager_hasShatter (powerups g) \<or> PowerUpManager_hasShield (powerups g)
      then ObstacleManager_destroyObstacle (obstacle hit) (obstacles g) else obstacles g)"
  using assms
  by (simp add: Game_obstacleCollision_def Game_triggerShake_def Let_def case_prod_beta)


section \<open>Pickup and expiry\<close>

lemma PowerUpManager_checkCollision_Some:
  assumes "PowerUpManager_checkCollision bb pm = Inr (Some pk, pm')"
  shows "\<exists>i ty. i < length (PowerUpManager.pool pm) \<and> PowerUp.active (PowerUpManager.pool pm ! i) \<and>
           intersectsBox bb (PowerUp.boundingBox (PowerUpManager.pool pm ! i)) \<and>
           (\<forall>j<i. \<not> (PowerUp.active (PowerUpManager.pool pm ! j) \<and>
                       intersectsBox bb (PowerUp.boundingBox (PowerUpManager.pool pm ! j)))) \<and>
           PowerUp.type (PowerUpManager.pool pm ! i) = Some ty \<and>
           PowerUpManager.pool pm' =
             (PowerUpManager.pool pm)[i := PowerUp_deactivate (PowerUpManager.pool pm ! i)] \<and>
           \<not> PowerUp.active (PowerUpManager.pool pm' ! i) \<and>
           activePowerUp pm' =
             Some \<lparr>ActivePowerUp.type = ty, timeLeft = duration (POWERUP_CONFIG ty),
                   color = config.color (POWERUP_CONFIG ty)\<rparr> \<and>
           Pickup.type pk = ty"
proof -
  from assms obtain i where i:
    "findSlot (\<lambda>pu. PowerUp.active pu \<and> intersectsBox bb (PowerUp.boundingBox pu))
       (PowerUpManager.pool pm) = Some i"
    by (auto simp: PowerUpManager_checkCollision_def split: option.splits)
  note f = findSlot_Some [OF i]
  from assms i obtain ty where ty: "PowerUp.type (PowerUpManager.pool pm ! i) = Some ty"
    by (auto simp: PowerUpManager_checkCollision_def Let_def split: option.splits)
  from assms i ty have r: "Pickup.type pk = ty"
    "pm' = pm\<lparr>PowerUpManager.pool :=
              (PowerUpManager.pool pm)[i := PowerUp_deactivate (PowerUpManager.pool pm ! i)],
            activePowerUp := Some \<lparr>ActivePowerUp.type = ty, timeLeft = duration (POWERUP_CONFIG ty),
                   color = config.color (POWERUP_CONFIG ty)\<rparr>\<rparr>"
    by (auto simp: PowerUpManager_checkCollision_def Let_def)
  from f r(2) have "\<not> PowerUp.active (PowerUpManager.pool pm' ! i)"
    by (simp add: PowerUp_deactivate_def)
  with f ty r show ?thesis by auto
qed

lemma PowerUpManager_checkCollision_None:
  assumes "PowerUpManager_checkCollision bb pm = Inr (None, pm')"
  shows "pm' = pm"
    "\<forall>pu\<in>set (PowerUpManager.pool pm). \<not> (PowerUp.active pu \<and> intersectsBox bb (PowerUp.boundingBox pu))"
  using assms
  by (auto simp: PowerUpManager_checkCollision_def Let_def findSlot_None_iff split: option.splits)

lemma tickActivePowerUp_eq:
  "tickActivePowerUp dt ap =
     (case ap of None \<Rightarrow> None
      | Some a \<Rightarrow> if timeLeft a - dt \<le> 0 then None else Some (a\<lparr>timeLeft := timeLeft a - dt\<rparr>))"
  by (simp add: tickActivePowerUp_def Let_def split: option.splits)

lemma PowerUpManager_updates_activePowerUp:
  "activePowerUp (fst (PowerUpManager_updates steps pm e)) = None \<or>
   (\<exists>a a'. activePowerUp pm = Some a \<and>
      activePowerUp (fst (PowerUpManager_updates steps pm e)) = Some a' \<and>
      timeLeft a' = timeLeft a - sum_list (map fst steps) \<and>
      (steps \<noteq> [] \<longrightarrow> 0 < timeLeft a'))"
proof (induction steps arbitrary: pm e)
  case Nil
  then show ?case by (cases "activePowerUp pm") simp_all
next
  case (Cons st steps)
  obtain dt s where st: "st = (dt, s)" by (cases st)
  define pm1 where "pm1 = fst (PowerUpManager_update dt s pm e)"
  define e1 where "e1 = snd (PowerUpManager_update dt s pm e)"
  have u: "PowerUpManager_updates (st # steps) pm e = PowerUpManager_updates steps pm1 e1"
    by (simp add: st pm1_def e1_def case_prod_beta)
  have t: "activePowerUp pm1 = tickActivePowerUp dt (activePowerUp pm)"
    by (simp add: pm1_def PowerUpManager_update_activePowerUp)
  from Cons.IH [of pm1 e1] show ?case
  proof
    assume "activePowerUp (fst (PowerUpManager_updates steps pm1 e1)) = None"
    with u show ?thesis by simp
  next
    assume "\<exists>a a'. activePowerUp pm1 = Some a \<and>
      activePowerUp (fst (PowerUpManager_updates steps pm1 e1)) = Some a' \<and>
      timeLeft a' = timeLeft a - sum_list (map fst steps) \<and> (steps \<noteq> [] \<longrightarrow> 0 < timeLeft a')"
    then obtain a1 a' where a: "activePowerUp pm1 = Some a1"
      "activePowerUp (fst (PowerUpManager_updates steps pm1 e1)) = Some a'"
      "timeLeft a' = timeLeft a1 - sum_list (map fst steps)" "steps \<noteq> [] \<longrightarrow> 0 < timeLeft a'"
      by blast
    from a(1) t obtain a0 where a0: "activePowerUp pm = Some a0" "0 < timeLeft a0 - dt"
      "a1 = a0\<lparr>timeLeft := timeLeft a0 - dt\<rparr>"
      by (auto simp: tickActivePowerUp_eq split: option.splits if_splits)
    have pos: "0 < timeLeft a'"
    proof (cases "steps = []")
      case True
      with a(2,1) have "a' = a1" by simp
      with a0(2,3) show ?thesis by simp
    next
      case False
      with a(4) show ?thesis by simp
    qed
    from a0 a(2,3) pos u st show ?thesis by simp
  qed
qed

section \<open>Restart\<close>

lemma foldl_statements_state:
  "\<forall>f\<in>set body. \<forall>t. state (f t) = state t \<Longrightarrow> state (foldl (\<lambda>t f. f t) s body) = state s"
  by (induction body arbitrary: s) simp_all

lemma runStatements_startGame_state:
  "state (runStatements Game_startGame_statements n g) = (if n = 0 then state g else PLAYING)"
proof (cases n)
  case 0
  then show ?thesis by (simp add: runStatements_def)
next
  case (Suc k)
  obtain rest where r: "Game_startGame_statements = (\<lambda>g. g\<lparr>state := PLAYING\<rparr>) # rest"
    "\<forall>f\<in>set rest. \<forall>t. state (f t) = state t"
    by (simp add: Game_startGame_statements_def)
  from r(2) have "\<forall>f\<in>set (take k rest). \<forall>t. state (f t) = state t"
    by (meson in_set_takeD)
  from foldl_statements_state [OF this] Suc show ?thesis
    unfolding runStatements_def r(1) by simp
qed

section \<open>The host is not changed\<close>

lemma host_Math_random [simp]: "host (snd (Math_random e)) = host e"
  by (simp add: host_def Math_random_def)

lemma host_Date_now [simp]: "host (snd (Date_now e)) = host e"
  by (simp add: host_def Date_now_def)

lemma host_spawnShatter [simp]:
  "host (snd (ParticleSystem_spawnShatter pos col n ps e)) = host e"
  by (induction n arbitrary: ps e) (simp_all add: Let_def case_prod_beta split: option.splits)

lemma host_spawnExplosion [simp]:
  "host (snd (ParticleSystem_spawnExplosion pos n ps e)) = host e"
  by (induction n arbitrary: ps e) (simp_all add: Let_def case_prod_beta split: option.splits)

lemma host_spawnPickup [simp]:
  "host (snd (ParticleSystem_spawnPickup pos col n ps e)) = host e"
  by (induction n arbitrary: ps e) (simp_all add: Let_def case_prod_beta split: option.splits)

lemma host_Obstacle_activate [simp]: "host (snd (Obstacle_activate x z spd ex ob e)) = host e"
  by (simp add: Obstacle_activate_def Let_def case_prod_beta)

lemma host_spawnObstacle [simp]: "host (snd (ObstacleManager_spawnObstacle spd f om e)) = host e"
  by (simp add: ObstacleManager_spawnObstacle_def Let_def case_prod_beta split: option.splits)

lemma host_ObstacleManager_update [simp]: "host (snd (ObstacleManager_update dt s om e)) = host e"
  by (simp add: ObstacleManager_update_def Let_def case_prod_beta)

lemma host_PowerUp_update [simp]: "host (snd (PowerUp_update dt pu e)) = host e"
  by (simp add: PowerUp_update_def Let_def case_prod_beta)

lemma host_PowerUpManager_updatePool [simp]:
  "host (snd (PowerUpManager_updatePool dt dz pus e)) = host e"
  by (induction pus arbitrary: e) (simp_all add: Let_def case_prod_beta)

lemma host_PowerUpManager_trySpawn [simp]: "host (snd (PowerUpManager_trySpawn spd pm e)) = host e"
  by (simp add: PowerUpManager_trySpawn_def PowerUpManager_randomType_def Let_def case_prod_beta
      split: option.splits)

lemma host_PowerUpManager_update [simp]: "host (snd (PowerUpManager_update dt s pm e)) = host e"
  by (simp add: PowerUpManager_update_def Let_def case_prod_beta)

lemma host_Player_update [simp]: "host (snd (Player_update dt a ap p e)) = host e"
  by (simp add: Player_update_def Let_def case_prod_beta)

lemma host_Game_handleJump [simp]: "host (env (Game_handleJump g)) = host (env g)"
  by simp

lemma host_Game_updateSubsystems [simp]: "host (env (Game_updateSubsystems dt g)) = host (env g)"
  by (simp add: Game_updateSubsystems_def Let_def case_prod_beta)

lemma host_Game_beforeCollisions [simp]: "host (env (Game_beforeCollisions dt g)) = host (env g)"
  by (simp add: Game_beforeCollisions_def)

lemma host_Game_updateCamera [simp]: "host (env (Game_updateCamera dt g)) = host (env g)"
  by (simp add: Game_updateCamera_def Let_def case_prod_beta)

lemma host_Game_gameOver [simp]: "host (env (Game_gameOver g)) = host (env g)"
  by (simp add: Game_gameOver_def Game_triggerShake_def Let_def case_prod_beta)

lemma host_Game_obstacleCollision [simp]: "host (env (Game_obstacleCollision dt g)) = host (env g)"
  by (simp add: Game_obstacleCollision_def Game_triggerShake_def Let_def case_prod_beta
      split: option.splits)

lemma host_setFromObject: "host e = host e' \<Longrightarrow> setFromObject e = setFromObject e'"
  by (simp add: host_def)

lemma host_clock: "host e = host e' \<Longrightarrow> clock_tape e = clock_tape e'"
  by (simp add: host_def)

section \<open>Quiet subsystems\<close>

lemma Game_handleJump_idle: "\<not> jump (actions (input g)) \<Longrightarrow> Game_handleJump g = g"
  by (simp add: Game_handleJump_def InputManager_consumeJump_def)

lemma Player_updatePowerUpVisuals_isGrounded [simp]:
  "Player.isGrounded (Player_updatePowerUpVisuals ap p) = Player.isGrounded p"
  by (simp add: Player_updatePowerUpVisuals_def Let_def split: option.splits POWERUP_TYPES.splits)

lemma Player_update_idle:
  assumes "\<not> moveLeft a" "\<not> moveRight a" "Player.isGrounded p"
    and "object3d.position (Player.mesh p) = vec3_new 0 0.6 0" "Player.trackWidth p = 10"
  shows "object3d.position (Player.mesh (fst (Player_update dt a ap p e))) = vec3_new 0 0.6 0"
    "Player.isGrounded (fst (Player_update dt a ap p e))"
    "Player.trackWidth (fst (Player_update dt a ap p e)) = 10"
  using assms
  by (simp_all add: Player_update_def Player_setX_def Player_setY_def Let_def case_prod_beta
      clamp_def vec3_new_def)

lemma Player_update_idle_box:
  assumes "\<not> moveLeft a" "\<not> moveRight a" "Player.isGrounded p"
    and "object3d.position (Player.mesh p) = vec3_new 0 0.6 0" "Player.trackWidth p = 10"
    and "setFromObject e = sampleBox"
  shows "Player.boundingBox (fst (Player_update dt a ap p e)) = startBox"
  by (subst Player_update_boundingBox)
     (simp add: assms(6) sampleBox_def Player_update_idle(1) [OF assms(1-5)] expandByScalar_def
       startBox_def vec3_new_def vec3_addScalar_def)

lemma ObstacleManager_update_no_spawn:
  "ObstacleManager.spawnTimer om + dt < max 0.3 (ObstacleManager.spawnInterval om - difficulty s * 0.25) \<Longrightarrow>
     ObstacleManager_update dt s om e =
       (ObstacleManager_updatePool dt e (om\<lparr>ObstacleManager.spawnTimer := ObstacleManager.spawnTimer om + dt\<rparr>), e)"
  by (auto simp: ObstacleManager_update_def Let_def)

lemma Obstacle_update_obstacleAt:
  "setFromObject e = sampleBox \<Longrightarrow> Obstacle_update dt e (obstacleAt z) = obstacleAt (z + 15 * dt)"
  by (simp add: Obstacle_update_def obstacleAt_def Obstacle_new_def object3d_new_def Let_def
      vec3_new_def vec3_add_def vec3_multiplyScalar_def sampleBox_def)

lemma PowerUpManager_updatePool_inactive:
  "\<forall>pu\<in>set pus. \<not> PowerUp.active pu \<Longrightarrow> PowerUpManager_updatePool dt dz pus e = (pus, e)"
  by (induction pus) simp_all

lemma PowerUpManager_update_quiet:
  assumes "PowerUpManager.spawnTimer pm + dt < max 5 (PowerUpManager.spawnInterval pm - difficulty s * 0.5)"
    and "\<forall>pu\<in>set (PowerUpManager.pool pm). \<not> PowerUp.active pu"
  shows "PowerUpManager_update dt s pm e =
     (pm\<lparr>PowerUpManager.spawnTimer := PowerUpManager.spawnTimer pm + dt,
         activePowerUp := tickActivePowerUp dt (activePowerUp pm)\<rparr>, e)"
  using assms
  by (auto simp: PowerUpManager_update_def Let_def PowerUpManager_updatePool_inactive)

lemma Game_powerUpCollision_quiet:
  "\<forall>pu\<in>set (PowerUpManager.pool (powerups g)). \<not> PowerUp.active pu \<Longrightarrow>
     Game_powerUpCollision g = Inr g"
proof -
  assume a: "\<forall>pu\<in>set (PowerUpManager.pool (powerups g)). \<not> PowerUp.active pu"
  then have "findSlot (\<lambda>pu. PowerUp.active pu \<and>
        intersectsBox (Player.boundingBox (player g)) (PowerUp.boundingBox pu))
      (PowerUpManager.pool (powerups g)) = None"
    by (simp add: findSlot_None_iff)
  then show ?thesis
    by (simp add: Game_powerUpCollision_def PowerUpManager_checkCollision_def)
qed

lemma Game_updateSubsystems_eq:
  "Game_updateSubsystems dt g =
     g\<lparr>player := fst (Player_update dt (actions (input g)) (activePowerUp (powerups g)) (player g) (env g)),
       obstacles := fst (ObstacleManager_update dt (score g) (obstacles g)
          (snd (Player_update dt (actions (input g)) (activePowerUp (powerups g)) (player g) (env g)))),
       powerups := fst (PowerUpManager_update dt (score g) (powerups g)
          (snd (ObstacleManager_update dt (score g) (obstacles g)
             (snd (Player_update dt (actions (input g)) (activePowerUp (powerups g)) (player g) (env g)))))),
       particles := ParticleSystem_update dt (particles g),
       env := snd (PowerUpManager_update dt (score g) (powerups g)
          (snd (ObstacleManager_update dt (score g) (obstacles g)
             (snd (Player_update dt (actions (input g)) (activePowerUp (powerups g)) (player g) (env g))))))\<rparr>"
  by (simp add: Game_updateSubsystems_def Let_def case_prod_beta PowerUpManager_getActiveInfo_def)


lemma ObstacleManager_updatePool_host:
  "setFromObject e = setFromObject e' \<Longrightarrow>
     ObstacleManager_updatePool dt e om = ObstacleManager_updatePool dt e' om"
  by (simp add: ObstacleManager_updatePool_def Obstacle_update_def)

lemma Game_scoreIncrement_quiet:
  "scoreTimer g + dt < 0.1 \<Longrightarrow> Game_scoreIncrement dt g = g\<lparr>scoreTimer := scoreTimer g + dt\<rparr>"
  by (simp add: Game_scoreIncrement_def Let_def)

text \<open>A tick in which no key is held, nothing is spawned and no power-up is on the track.\<close>

lemma quiet_tick:
  assumes pl: "state g = PLAYING"
    and keys: "\<not> jump (actions (input g))" "\<not> moveLeft (actions (input g))"
      "\<not> moveRight (actions (input g))"
    and idle: "Player.isGrounded (player g)"
      "object3d.position (Player.mesh (player g)) = vec3_new 0 0.6 0"
      "Player.trackWidth (player g) = 10"
    and hst: "host (env g) = host sampleEnv"
    and ob: "ObstacleManager.spawnTimer (obstacles g) + dt
               < max 0.3 (ObstacleManager.spawnInterval (obstacles g) - difficulty (score g) * 0.25)"
    and pu: "PowerUpManager.spawnTimer (powerups g) + dt
               < max 5 (PowerUpManager.spawnInterval (powerups g) - difficulty (score g) * 0.5)"
      "\<forall>pu\<in>set (PowerUpManager.pool (powerups g)). \<not> PowerUp.active pu"
    and tm: "scoreTimer g + dt < 0.1"
  defines "b \<equiv> Game_beforeCollisions dt g"
  shows "Game_update dt g = Inr (Game_obstacleCollision dt b)"
    and "state b = PLAYING" and "score b = score g" and "scoreTimer b = scoreTimer g + dt"
    and "lastMilestone b = lastMilestone g" and "audio b = audio g" and "input b = input g"
    and "highScore b = highScore g"
    and "host (env b) = host sampleEnv"
    and "Player.isGrounded (player b)"
    and "object3d.position (Player.mesh (player b)) = vec3_new 0 0.6 0"
    and "Player.trackWidth (player b) = 10"
    and "Player.boundingBox (player b) = startBox"
    and "obstacles b =
           ObstacleManager_updatePool dt sampleEnv
             ((obstacles g)\<lparr>ObstacleManager.spawnTimer := ObstacleManager.spawnTimer (obstacles g) + dt\<rparr>)"
    and "powerups b =
           (powerups g)\<lparr>PowerUpManager.spawnTimer := PowerUpManager.spawnTimer (powerups g) + dt,
              activePowerUp := tickActivePowerUp dt (activePowerUp (powerups g))\<rparr>"
    and "Game_powerUpCollision b = Inr b"
proof -
  define pe where "pe = Player_update dt (actions (input g)) (activePowerUp (powerups g)) (player g) (env g)"
  have sfo: "setFromObject (env g) = sampleBox"
    using host_setFromObject [OF hst] by (simp add: sampleEnv_def)
  have hj: "Game_handleJump g = g" by (rule Game_handleJump_idle [OF keys(1)])
  have sub: "Game_updateSubsystems dt g =
      g\<lparr>player := fst pe,
        obstacles := fst (ObstacleManager_update dt (score g) (obstacles g) (snd pe)),
        powerups := fst (PowerUpManager_update dt (score g) (powerups g)
          (snd (ObstacleManager_update dt (score g) (obstacles g) (snd pe)))),
        particles := ParticleSystem_update dt (particles g),
        env := snd (PowerUpManager_update dt (score g) (powerups g)
          (snd (ObstacleManager_update dt (score g) (obstacles g) (snd pe))))\<rparr>"
    unfolding pe_def by (rule Game_updateSubsystems_eq)
  have beq: "b = (Game_updateSubsystems dt g)\<lparr>scoreTimer := scoreTimer g + dt\<rparr>"
    using tm by (simp add: b_def Game_beforeCollisions_def hj Game_scoreIncrement_quiet)
  have "setFromObject (snd pe) = setFromObject sampleEnv"
    by (simp add: pe_def sfo sampleEnv_def)
  from ObstacleManager_updatePool_host [OF this]
  have obs: "fst (ObstacleManager_update dt (score g) (obstacles g) (snd pe)) =
      ObstacleManager_updatePool dt sampleEnv
        ((obstacles g)\<lparr>ObstacleManager.spawnTimer := ObstacleManager.spawnTimer (obstacles g) + dt\<rparr>)"
    by (simp add: ObstacleManager_update_no_spawn [OF ob])
  have pus: "fst (PowerUpManager_update dt (score g) (powerups g) e) =
      (powerups g)\<lparr>PowerUpManager.spawnTimer := PowerUpManager.spawnTimer (powerups g) + dt,
              activePowerUp := tickActivePowerUp dt (activePowerUp (powerups g))\<rparr>" for e
    by (simp add: PowerUpManager_update_quiet [OF pu])
  show st: "state b = PLAYING" using pl by (simp add: b_def)
  show "score b = score g" "scoreTimer b = scoreTimer g + dt" "lastMilestone b = lastMilestone g"
    "audio b = audio g" "input b = input g" "highScore b = highScore g"
    by (simp_all add: beq)
  show "host (env b) = host sampleEnv" using hst by (simp add: b_def)
  have pb: "player b = fst pe" by (simp add: beq sub)
  show "Player.isGrounded (player b)"
    "object3d.position (Player.mesh (player b)) = vec3_new 0 0.6 0"
    "Player.trackWidth (player b) = 10"
    unfolding pb pe_def by (rule Player_update_idle [OF keys(2,3) idle])+
  show "Player.boundingBox (player b) = startBox"
    unfolding pb pe_def by (rule Player_update_idle_box [OF keys(2,3) idle sfo])
  show "obstacles b =
           ObstacleManager_updatePool dt sampleEnv
             ((obstacles g)\<lparr>ObstacleManager.spawnTimer := ObstacleManager.spawnTimer (obstacles g) + dt\<rparr>)"
    by (simp add: beq sub obs)
  show pw: "powerups b =
           (powerups g)\<lparr>PowerUpManager.spawnTimer := PowerUpManager.spawnTimer (powerups g) + dt,
              activePowerUp := tickActivePowerUp dt (activePowerUp (powerups g))\<rparr>"
    by (simp add: beq sub pus)
  have "\<forall>pu\<in>set (PowerUpManager.pool (powerups b)). \<not> PowerUp.active pu"
    using pu(2) by (simp add: pw)
  from Game_powerUpCollision_quiet [OF this]
  show pc: "Game_powerUpCollision b = Inr b" .
  then show "Game_update dt g = Inr (Game_obstacleCollision dt b)"
    unfolding b_def by (rule Game_update_PLAYING [OF pl])
qed


section \<open>The sample session with SHATTER\<close>

lemma obstacleAt_simps [simp]:
  "Obstacle.active (obstacleAt z)" "\<not> Obstacle.isExplosive (obstacleAt z)"
  "object3d.position (Obstacle.mesh (obstacleAt z)) = vec3_new 0 0.6 z"
  "Obstacle.boundingBox (obstacleAt z) =
     \<lparr>bmin = vec3_new (- 0.5) 0.1 (z - 0.5), bmax = vec3_new 0.5 1.1 (z + 0.5)\<rparr>"
  by (simp_all add: obstacleAt_def Obstacle_new_def object3d_new_def sampleBox_def vec3_new_def
      vec3_addScalar_def)

lemma Obstacle_deactivate_simps [simp]:
  "\<not> Obstacle.active (Obstacle_deactivate ob)"
  by (simp add: Obstacle_deactivate_def)

lemma Obstacle_new_inactive [simp]: "\<not> Obstacle.active Obstacle_new"
  by (simp add: Obstacle_new_def)

lemma intersects_startBox_obstacleAt:
  "- 0.9 \<le> z \<Longrightarrow> z \<le> 0.9 \<Longrightarrow> intersectsBox startBox (Obstacle.boundingBox (obstacleAt z))"
  by (simp add: intersectsBox_def startBox_def vec3_new_def)

lemma shatterGame_facts:
  "state shatterGame = PLAYING" "score shatterGame = 48" "scoreTimer shatterGame = 0"
  "lastMilestone shatterGame = 0" "audio shatterGame = []" "highScore shatterGame = 0"
  "\<not> jump (actions (input shatterGame))" "\<not> moveLeft (actions (input shatterGame))"
  "\<not> moveRight (actions (input shatterGame))"
  "Player.isGrounded (player shatterGame)"
  "object3d.position (Player.mesh (player shatterGame)) = vec3_new 0 0.6 0"
  "Player.trackWidth (player shatterGame) = 10"
  "env shatterGame = sampleEnv"
  "obstacles shatterGame = twoObstaclesAhead"
  "PowerUpManager.spawnTimer (powerups shatterGame) = 0"
  "PowerUpManager.spawnInterval (powerups shatterGame) = 8"
  "\<forall>pu\<in>set (PowerUpManager.pool (powerups shatterGame)). \<not> PowerUp.active pu"
  "activePowerUp (powerups shatterGame) =
     Some \<lparr>ActivePowerUp.type = SHATTER, timeLeft = 0.02, color = 0xff3300\<rparr>"
  by (simp_all add: shatterGame_def startedGame_def Game_startGame_eq Game_new_def
      InputManager_new_def Player_reset_def Player_new_def PowerUpManager_reset_def
      PowerUpManager_new_def PowerUp_deactivate_def)

lemma twoObstaclesAhead_facts:
  "ObstacleManager.spawnTimer twoObstaclesAhead = 0"
  "ObstacleManager.spawnInterval twoObstaclesAhead = 1.2"
  "ObstacleManager.despawnZ twoObstaclesAhead = 10"
  "ObstacleManager.pool twoObstaclesAhead = [obstacleAt (- 0.5), obstacleAt (- 0.5)] @ replicate 38 Obstacle_new"
  by (simp_all add: twoObstaclesAhead_def ObstacleManager_new_def obstacleAhead_def)

lemma ObstacleManager_updatePool_sample:
  assumes "ObstacleManager.pool om = [a, obstacleAt z] @ replicate 38 Obstacle_new"
    and "a = obstacleAt z \<or> a = Obstacle_deactivate (obstacleAt y)"
    and "ObstacleManager.despawnZ om = 10" and "z + 15 * dt \<le> 10"
  shows "ObstacleManager.pool (ObstacleManager_updatePool dt sampleEnv om) =
           [if a = obstacleAt z then obstacleAt (z + 15 * dt) else a, obstacleAt (z + 15 * dt)]
             @ replicate 38 Obstacle_new"
    "ObstacleManager.spawnTimer (ObstacleManager_updatePool dt sampleEnv om) = ObstacleManager.spawnTimer om"
    "ObstacleManager.spawnInterval (ObstacleManager_updatePool dt sampleEnv om) = ObstacleManager.spawnInterval om"
    "ObstacleManager.despawnZ (ObstacleManager_updatePool dt sampleEnv om) = 10"
proof -
  have s: "setFromObject sampleEnv = sampleBox" by (simp add: sampleEnv_def)
  have u: "Obstacle_update dt sampleEnv (obstacleAt z) = obstacleAt (z + 15 * dt)"
    by (rule Obstacle_update_obstacleAt [OF s])
  from assms(2) show "ObstacleManager.pool (ObstacleManager_updatePool dt sampleEnv om) =
           [if a = obstacleAt z then obstacleAt (z + 15 * dt) else a, obstacleAt (z + 15 * dt)]
             @ replicate 38 Obstacle_new"
  proof
    assume "a = obstacleAt z"
    with assms(1,3,4) u show ?thesis
      by (simp add: ObstacleManager_updatePool_def Let_def vec3_new_def)
  next
    assume a: "a = Obstacle_deactivate (obstacleAt y)"
    then have "a \<noteq> obstacleAt z" by (metis Obstacle_deactivate_simps obstacleAt_simps(1))
    with a assms(1,3,4) u show ?thesis
      by (simp add: ObstacleManager_updatePool_def Let_def vec3_new_def)
  qed
  show "ObstacleManager.spawnTimer (ObstacleManager_updatePool dt sampleEnv om) = ObstacleManager.spawnTimer om"
    "ObstacleManager.spawnInterval (ObstacleManager_updatePool dt sampleEnv om) = ObstacleManager.spawnInterval om"
    "ObstacleManager.despawnZ (ObstacleManager_updatePool dt sampleEnv om) = 10"
    using assms(3) by (simp_all add: ObstacleManager_updatePool_def)
qed


lemma ObstacleManager_checkCollision_first:
  assumes "ObstacleManager.pool om = obstacleAt z # rest" and "- 0.9 \<le> z" and "z \<le> 0.9"
  shows "\<exists>hit. ObstacleManager_checkCollision startBox om = Some hit \<and> obstacle hit = 0 \<and>
           \<not> Hit.isExplosive hit"
  using assms intersects_startBox_obstacleAt [OF assms(2,3)]
  by (simp add: ObstacleManager_checkCollision_def Let_def del: obstacleAt_simps(4))


text \<open>The first tick of the sample session: the obstacle in slot 0 is shattered.\<close>

lemma shatterGame_before:
  defines "b \<equiv> Game_beforeCollisions fixedTimeStep shatterGame"
  shows "\<exists>hit. Game_powerUpCollision b = Inr b \<and>
      Game_update fixedTimeStep shatterGame = Inr (Game_obstacleCollision fixedTimeStep b) \<and>
      ObstacleManager_checkCollision (Player.boundingBox (player b)) (obstacles b) = Some hit \<and>
      obstacle hit = 0 \<and> PowerUpManager_hasShatter (powerups b) \<and>
      state b = PLAYING \<and> score b = 48 \<and> scoreTimer b = 1 / 60 \<and> lastMilestone b = 0 \<and>
      audio b = [] \<and>
      \<not> jump (actions (input b)) \<and> \<not> moveLeft (actions (input b)) \<and>
      \<not> moveRight (actions (input b)) \<and>
      Player.isGrounded (player b) \<and>
      object3d.position (Player.mesh (player b)) = vec3_new 0 0.6 0 \<and>
      Player.trackWidth (player b) = 10 \<and>
      host (env b) = host sampleEnv \<and>
      ObstacleManager.pool (obstacles b) =
        [obstacleAt (- 0.25), obstacleAt (- 0.25)] @ replicate 38 Obstacle_new \<and>
      ObstacleManager.spawnTimer (obstacles b) = 1 / 60 \<and>
      ObstacleManager.spawnInterval (obstacles b) = 1.2 \<and>
      ObstacleManager.despawnZ (obstacles b) = 10 \<and>
      PowerUpManager.spawnTimer (powerups b) = 1 / 60 \<and>
      PowerUpManager.spawnInterval (powerups b) = 8 \<and>
      (\<forall>pu\<in>set (PowerUpManager.pool (powerups b)). \<not> PowerUp.active pu) \<and>
      activePowerUp (powerups b) =
        Some \<lparr>ActivePowerUp.type = SHATTER, timeLeft = 1 / 300, color = 0xff3300\<rparr>"
proof -
  note f = shatterGame_facts
  have h: "host (env shatterGame) = host sampleEnv" by (simp add: f)
  have ob: "ObstacleManager.spawnTimer (obstacles shatterGame) + fixedTimeStep
      < max 0.3 (ObstacleManager.spawnInterval (obstacles shatterGame) - difficulty (score shatterGame) * 0.25)"
    by (simp add: f twoObstaclesAhead_facts fixedTimeStep_def difficulty_def)
  have pu: "PowerUpManager.spawnTimer (powerups shatterGame) + fixedTimeStep
      < max 5 (PowerUpManager.spawnInterval (powerups shatterGame) - difficulty (score shatterGame) * 0.5)"
    by (simp add: f fixedTimeStep_def difficulty_def)
  have tm: "scoreTimer shatterGame + fixedTimeStep < 0.1" by (simp add: f fixedTimeStep_def)
  note q = quiet_tick [OF f(1) f(7,8,9) f(10,11,12) h ob pu f(17) tm, folded b_def]
  have om: "ObstacleManager.pool (twoObstaclesAhead\<lparr>ObstacleManager.spawnTimer := t\<rparr>) =
      [obstacleAt (- 0.5), obstacleAt (- 0.5)] @ replicate 38 Obstacle_new"
    "ObstacleManager.despawnZ (twoObstaclesAhead\<lparr>ObstacleManager.spawnTimer := t\<rparr>) = 10" for t
    by (simp_all add: twoObstaclesAhead_facts)
  have z: "- 0.5 + 15 * fixedTimeStep \<le> (10::real)" by (simp add: fixedTimeStep_def)
  note up = ObstacleManager_updatePool_sample
    [where a = "obstacleAt (- 0.5)" and dt = fixedTimeStep, OF om(1) disjI1 [OF refl] om(2) z]
  have pool: "ObstacleManager.pool (obstacles b) =
      [obstacleAt (- 0.25), obstacleAt (- 0.25)] @ replicate 38 Obstacle_new"
    using up(1) by (simp add: q(14) f(14) fixedTimeStep_def)
  have ofr: "ObstacleManager.spawnTimer (obstacles b) = 1 / 60"
    "ObstacleManager.spawnInterval (obstacles b) = 1.2" "ObstacleManager.despawnZ (obstacles b) = 10"
    using up(2,3,4) by (simp_all add: q(14) f(14) twoObstaclesAhead_facts fixedTimeStep_def)
  have "ObstacleManager.pool (obstacles b) = obstacleAt (- 0.25) # (obstacleAt (- 0.25) # replicate 38 Obstacle_new)"
    using pool by simp
  from ObstacleManager_checkCollision_first [OF this]
  obtain hit where hit: "ObstacleManager_checkCollision startBox (obstacles b) = Some hit"
    "obstacle hit = 0" by auto
  have ap: "activePowerUp (powerups b) =
      Some \<lparr>ActivePowerUp.type = SHATTER, timeLeft = 1 / 300, color = 0xff3300\<rparr>"
    by (simp add: q(15) f(18) tickActivePowerUp_def fixedTimeStep_def)
  then have sh: "PowerUpManager_hasShatter (powerups b)" by (simp add: PowerUpManager_hasShatter_def)
  have hb: "ObstacleManager_checkCollision (Player.boundingBox (player b)) (obstacles b) = Some hit"
    using hit(1) by (simp add: q(13))
  have rest: "state b = PLAYING" "score b = 48" "scoreTimer b = 1 / 60" "lastMilestone b = 0"
    "audio b = []" "\<not> jump (actions (input b))" "\<not> moveLeft (actions (input b))"
    "\<not> moveRight (actions (input b))" "Player.isGrounded (player b)"
    "object3d.position (Player.mesh (player b)) = vec3_new 0 0.6 0"
    "Player.trackWidth (player b) = 10" "host (env b) = host sampleEnv"
    by (simp_all add: q f fixedTimeStep_def)
  have pw: "PowerUpManager.spawnTimer (powerups b) = 1 / 60"
    "PowerUpManager.spawnInterval (powerups b) = 8"
    "\<forall>pu\<in>set (PowerUpManager.pool (powerups b)). \<not> PowerUp.active pu"
    using f(17) by (simp_all add: q(15) f fixedTimeStep_def)
  from q(16) q(1) hb hit(2) sh rest pool ofr pw ap show ?thesis by blast
qed



section \<open>Boxes\<close>

lemma PowerUp_update_boundingBox:
  "PowerUp.active pu \<Longrightarrow>
     PowerUp.boundingBox (fst (PowerUp_update dt pu e)) =
       expandByScalar (setFromObject e (PowerUp.mesh (fst (PowerUp_update dt pu e)))) 0.2"
  by (simp add: PowerUp_update_def Let_def case_prod_beta)

section \<open>The claims\<close>

text \<open>
  C1. A tick while PLAYING in which the obstacle pool reports a collision, \<open>m\<close> being the
  state when the obstacle collision is resolved (after the periodic increment and the
  pickup). With SHATTER active the obstacle hit is deactivated, the score is that of \<open>m\<close>,
  which holds the periodic increment, plus exactly 5, the power-up manager (and so the
  active power-up) is as it was and the phase stays PLAYING. Otherwise, with SHIELD
  active, the obstacle is deactivated, the score is not changed and the phase stays
  PLAYING. Otherwise no power-up or DOUBLE is active, the phase becomes GAME_OVER, the
  score is not changed and no obstacle is released.
\<close>

theorem obstacle_collision_resolution:
  assumes "state g = PLAYING"
    and "Game_powerUpCollision (Game_beforeCollisions dt g) = Inr m"
    and "ObstacleManager_checkCollision (Player.boundingBox (player m)) (obstacles m) = Some hit"
  shows "Game_update dt g = Inr (Game_obstacleCollision dt m) \<and>
     score m = score g + (if 0.1 \<le> scoreTimer g + dt
                          then (if PowerUpManager_hasDouble
                                     (powerups (Game_updateSubsystems dt (Game_handleJump g)))
                                then 2 else 1)
                          else 0) \<and>
     Obstacle.active (ObstacleManager.pool (obstacles m) ! obstacle hit) \<and>
     (PowerUpManager_hasShatter (powerups m) \<longrightarrow>
        obstacles (Game_obstacleCollision dt m) =
          ObstacleManager_destroyObstacle (obstacle hit) (obstacles m) \<and>
        \<not> Obstacle.active
            (ObstacleManager.pool (obstacles (Game_obstacleCollision dt m)) ! obstacle hit) \<and>
        score (Game_obstacleCollision dt m) = score m + 5 \<and>
        powerups (Game_obstacleCollision dt m) = powerups m \<and>
        state (Game_obstacleCollision dt m) = PLAYING) \<and>
     (\<not> PowerUpManager_hasShatter (powerups m) \<and> PowerUpManager_hasShield (powerups m) \<longrightarrow>
        obstacles (Game_obstacleCollision dt m) =
          ObstacleManager_destroyObstacle (obstacle hit) (obstacles m) \<and>
        \<not> Obstacle.active
            (ObstacleManager.pool (obstacles (Game_obstacleCollision dt m)) ! obstacle hit) \<and>
        score (Game_obstacleCollision dt m) = score m \<and>
        powerups (Game_obstacleCollision dt m) = powerups m \<and>
        state (Game_obstacleCollision dt m) = PLAYING) \<and>
     (\<not> PowerUpManager_hasShatter (powerups m) \<and> \<not> PowerUpManager_hasShield (powerups m) \<longrightarrow>
        (activePowerUp (powerups m) = None \<or>
         map_option ActivePowerUp.type (activePowerUp (powerups m)) = Some DOUBLE) \<and>
        state (Game_obstacleCollision dt m) = GAME_OVER \<and>
        score (Game_obstacleCollision dt m) = score m \<and>
        obstacles (Game_obstacleCollision dt m) = obstacles m)"
proof -
  note fr = Game_powerUpCollision_frame [OF assms(2)]
  note hit = ObstacleManager_checkCollision_Some [OF assms(3)]
  have upd: "Game_update dt g = Inr (Game_obstacleCollision dt m)"
    by (rule Game_update_PLAYING [OF assms(1,2)])
  have sm: "score m = score g + (if 0.1 \<le> scoreTimer g + dt
                          then (if PowerUpManager_hasDouble
                                     (powerups (Game_updateSubsystems dt (Game_handleJump g)))
                                then 2 else 1)
                          else 0)"
    using fr(2) by (simp add: Game_beforeCollisions_score)
  have st: "state m = PLAYING" using fr(1) assms(1) by simp
  have hitne: "ObstacleManager_checkCollision (Player.boundingBox (player m)) (obstacles m) \<noteq> None"
    using assms(3) by simp
  have kinds: "activePowerUp (powerups m) = None \<or>
         map_option ActivePowerUp.type (activePowerUp (powerups m)) = Some DOUBLE"
    if "\<not> PowerUpManager_hasShatter (powerups m)" "\<not> PowerUpManager_hasShield (powerups m)"
  proof (cases "activePowerUp (powerups m)")
    case None
    then show ?thesis by simp
  next
    case (Some a)
    with that show ?thesis
      by (cases "ActivePowerUp.type a")
         (simp_all add: PowerUpManager_hasShatter_def PowerUpManager_hasShield_def)
  qed
  show ?thesis
    using upd sm st hit(1,2) hitne kinds
    by (simp add: Game_obstacleCollision_obstacles [OF assms(3)] Game_obstacleCollision_score
        Game_obstacleCollision_state ObstacleManager_destroyObstacle_inactive)
qed

theorem obstacle_collision_resolution_witness:
  "state shatterGame = PLAYING \<and>
   (\<exists>m hit. Game_powerUpCollision (Game_beforeCollisions fixedTimeStep shatterGame) = Inr m \<and>
      ObstacleManager_checkCollision (Player.boundingBox (player m)) (obstacles m) = Some hit \<and>
      PowerUpManager_hasShatter (powerups m) \<and>
      Game_update fixedTimeStep shatterGame = Inr (Game_obstacleCollision fixedTimeStep m) \<and>
      score m = 48 \<and>
      score (Game_obstacleCollision fixedTimeStep m) = 53 \<and>
      \<not> Obstacle.active
          (ObstacleManager.pool (obstacles (Game_obstacleCollision fixedTimeStep m)) ! obstacle hit) \<and>
      powerups (Game_obstacleCollision fixedTimeStep m) = powerups m \<and>
      state (Game_obstacleCollision fixedTimeStep m) = PLAYING)"
proof -
  define b where "b = Game_beforeCollisions fixedTimeStep shatterGame"
  have p: "state shatterGame = PLAYING" by (simp add: shatterGame_facts)
  from shatterGame_before [folded b_def] obtain hit where
    pc: "Game_powerUpCollision b = Inr b"
    and hb: "ObstacleManager_checkCollision (Player.boundingBox (player b)) (obstacles b) = Some hit"
    and sh: "PowerUpManager_hasShatter (powerups b)" and sc: "score b = 48"
    by blast
  note th = obstacle_collision_resolution [OF p pc [unfolded b_def] hb [unfolded b_def], folded b_def]
  note t1 = th [THEN conjunct1]
  note t4 = th [THEN conjunct2, THEN conjunct2, THEN conjunct2, THEN conjunct1, rule_format, OF sh]
  from t4 sc have s53: "score (Game_obstacleCollision fixedTimeStep b) = 53" by simp
  from t1 t4 s53
  have "Game_update fixedTimeStep shatterGame = Inr (Game_obstacleCollision fixedTimeStep b) \<and>
      score (Game_obstacleCollision fixedTimeStep b) = 53 \<and>
      \<not> Obstacle.active
          (ObstacleManager.pool (obstacles (Game_obstacleCollision fixedTimeStep b)) ! obstacle hit) \<and>
      powerups (Game_obstacleCollision fixedTimeStep b) = powerups b \<and>
      state (Game_obstacleCollision fixedTimeStep b) = PLAYING"
    by blast
  with p pc hb sh sc show ?thesis unfolding b_def by blast
qed

text \<open>
  C2. When the power-up pool reports a collision (which the game asks of it with the
  player's box, in the power-up collision section of a tick), the power-up picked up is
  deactivated at once and the active power-up becomes its kind with the full duration of
  that kind, whatever was active before; the durations are 5 for SHIELD, 8 for DOUBLE and
  6 for SHATTER. Every update of the manager takes the step from the time left and clears
  the active power-up once the time left is 0 or less. So a SHIELD just installed is
  absent after updates whose steps sum to 5.01, whatever the steps and the scores, as
  long as nothing is picked up in between.
\<close>

theorem pickup_installs_and_timer_expires:
  "(PowerUpManager_checkCollision bb pm = Inr (Some pk, pm') \<longrightarrow>
      (\<exists>i ty. i < length (PowerUpManager.pool pm) \<and> PowerUp.active (PowerUpManager.pool pm ! i) \<and>
           intersectsBox bb (PowerUp.boundingBox (PowerUpManager.pool pm ! i)) \<and>
           PowerUp.type (PowerUpManager.pool pm ! i) = Some ty \<and>
           PowerUpManager.pool pm' =
             (PowerUpManager.pool pm)[i := PowerUp_deactivate (PowerUpManager.pool pm ! i)] \<and>
           \<not> PowerUp.active (PowerUpManager.pool pm' ! i) \<and>
           activePowerUp pm' =
             Some \<lparr>ActivePowerUp.type = ty, timeLeft = duration (POWERUP_CONFIG ty),
                   color = config.color (POWERUP_CONFIG ty)\<rparr> \<and>
           Pickup.type pk = ty)) \<and>
   (Game_powerUpCollision g = Inr g' \<longrightarrow>
      (\<exists>r. PowerUpManager_checkCollision (Player.boundingBox (player g)) (powerups g) =
             Inr (r, powerups g'))) \<and>
   duration (POWERUP_CONFIG SHIELD) = 5 \<and> duration (POWERUP_CONFIG DOUBLE) = 8 \<and>
   duration (POWERUP_CONFIG SHATTER) = 6 \<and>
   activePowerUp (fst (PowerUpManager_update dt s pm e)) =
     (case activePowerUp pm of None \<Rightarrow> None
      | Some a \<Rightarrow> if timeLeft a - dt \<le> 0 then None else Some (a\<lparr>timeLeft := timeLeft a - dt\<rparr>)) \<and>
   (activePowerUp pm = Some \<lparr>ActivePowerUp.type = SHIELD, timeLeft = duration (POWERUP_CONFIG SHIELD),
                             color = config.color (POWERUP_CONFIG SHIELD)\<rparr> \<and>
    sum_list (map fst steps) = 5.01 \<longrightarrow>
      activePowerUp (fst (PowerUpManager_updates steps pm e)) = None)"
proof -
  have a: "PowerUpManager_checkCollision bb pm = Inr (Some pk, pm') \<longrightarrow>
      (\<exists>i ty. i < length (PowerUpManager.pool pm) \<and> PowerUp.active (PowerUpManager.pool pm ! i) \<and>
           intersectsBox bb (PowerUp.boundingBox (PowerUpManager.pool pm ! i)) \<and>
           PowerUp.type (PowerUpManager.pool pm ! i) = Some ty \<and>
           PowerUpManager.pool pm' =
             (PowerUpManager.pool pm)[i := PowerUp_deactivate (PowerUpManager.pool pm ! i)] \<and>
           \<not> PowerUp.active (PowerUpManager.pool pm' ! i) \<and>
           activePowerUp pm' =
             Some \<lparr>ActivePowerUp.type = ty, timeLeft = duration (POWERUP_CONFIG ty),
                   color = config.color (POWERUP_CONFIG ty)\<rparr> \<and>
           Pickup.type pk = ty)"
    using PowerUpManager_checkCollision_Some [of bb pm pk pm'] by blast
  have b: "Game_powerUpCollision g = Inr g' \<longrightarrow>
      (\<exists>r. PowerUpManager_checkCollision (Player.boundingBox (player g)) (powerups g) =
             Inr (r, powerups g'))"
    by (auto simp: Game_powerUpCollision_def Let_def case_prod_beta split: sum.splits option.splits)
  have c: "activePowerUp (fst (PowerUpManager_update dt s pm e)) =
     (case activePowerUp pm of None \<Rightarrow> None
      | Some a \<Rightarrow> if timeLeft a - dt \<le> 0 then None else Some (a\<lparr>timeLeft := timeLeft a - dt\<rparr>))"
    by (simp add: PowerUpManager_update_activePowerUp tickActivePowerUp_eq)
  have d: "activePowerUp (fst (PowerUpManager_updates steps pm e)) = None"
    if "activePowerUp pm = Some \<lparr>ActivePowerUp.type = SHIELD, timeLeft = duration (POWERUP_CONFIG SHIELD),
                             color = config.color (POWERUP_CONFIG SHIELD)\<rparr>"
      and "sum_list (map fst steps) = 5.01"
  proof -
    from that(2) have ne: "steps \<noteq> []" by auto
    from PowerUpManager_updates_activePowerUp [of steps pm e] show ?thesis
    proof
      assume "activePowerUp (fst (PowerUpManager_updates steps pm e)) = None"
      then show ?thesis .
    next
      assume "\<exists>a a'. activePowerUp pm = Some a \<and>
        activePowerUp (fst (PowerUpManager_updates steps pm e)) = Some a' \<and>
        timeLeft a' = timeLeft a - sum_list (map fst steps) \<and> (steps \<noteq> [] \<longrightarrow> 0 < timeLeft a')"
      with that ne have False by auto
      then show ?thesis ..
    qed
  qed
  show ?thesis using a b c d by simp
qed


theorem pickup_installs_and_timer_expires_witness:
  "\<exists>pk pm'. PowerUpManager_checkCollision startBox shieldAhead = Inr (Some pk, pm') \<and>
      Pickup.type pk = SHIELD \<and>
      activePowerUp pm' = Some \<lparr>ActivePowerUp.type = SHIELD, timeLeft = 5, color = 0x00ffff\<rparr> \<and>
      sum_list (map fst (replicate 300 (fixedTimeStep, 0 :: int) @ [(0.01, 0)])) = 5.01 \<and>
      activePowerUp (fst (PowerUpManager_updates (replicate 300 (fixedTimeStep, 0) @ [(0.01, 0)])
                            pm' sampleEnv)) = None"
proof -
  have "\<exists>pk pm'. PowerUpManager_checkCollision startBox shieldAhead = Inr (Some pk, pm') \<and>
      Pickup.type pk = SHIELD"
    by (simp add: PowerUpManager_checkCollision_def shieldAhead_def startBox_def
        PowerUpManager_new_def PowerUp_new_def intersectsBox_def vec3_new_def Let_def)
  then obtain pk pm' where ev: "PowerUpManager_checkCollision startBox shieldAhead = Inr (Some pk, pm')"
    "Pickup.type pk = SHIELD" by blast
  have sum: "sum_list (map fst (replicate 300 (fixedTimeStep, 0 :: int) @ [(0.01, 0)])) = 5.01"
    by (simp add: sum_list_replicate fixedTimeStep_def)
  from pickup_installs_and_timer_expires
    [where bb = startBox and pm = shieldAhead and pk = pk and pm' = pm', THEN conjunct1,
      rule_format, OF ev(1)]
  obtain ty where ity: "activePowerUp pm' =
      Some \<lparr>ActivePowerUp.type = ty, timeLeft = duration (POWERUP_CONFIG ty),
            color = config.color (POWERUP_CONFIG ty)\<rparr>" "Pickup.type pk = ty"
    by blast
  with ev(2) have ap: "activePowerUp pm' =
      Some \<lparr>ActivePowerUp.type = SHIELD, timeLeft = duration (POWERUP_CONFIG SHIELD),
            color = config.color (POWERUP_CONFIG SHIELD)\<rparr>"
    by simp
  have "activePowerUp (fst (PowerUpManager_updates (replicate 300 (fixedTimeStep, 0) @ [(0.01, 0)])
                            pm' sampleEnv)) = None"
    by (rule pickup_installs_and_timer_expires
        [where pm = pm' and steps = "replicate 300 (fixedTimeStep, 0) @ [(0.01, 0)]" and e = sampleEnv,
          THEN conjunct2, THEN conjunct2, THEN conjunct2, THEN conjunct2, THEN conjunct2,
          THEN conjunct2, rule_format, OF conjI, OF ap sum])
  with ev ap sum show ?thesis by simp
qed

text \<open>
  C3 (amended). In every host frame while PLAYING, the raw delta is clamped to at most 0.1
  before it is added to the accumulator; the loop then runs one tick of the fixed step for
  every whole step of 1/60 the accumulator holds and keeps the rest, which is less than a
  step (and not negative when the accumulator was not). Unless a tick raises an exception,
  which it does not when every active power-up carries a kind, the frame returns. With
  0.05 accumulated, exactly 3 steps run and nothing remains: 3 steps of 1/60 are 0.05.
\<close>

theorem Game_animate_fixed_steps:
  assumes "state g = PLAYING"
  shows "min rawDt 0.1 \<le> 0.1 \<and>
         Game_animate rawDt g =
           Game_fixedSteps (nat \<lfloor>(accumulator g + min rawDt 0.1) / fixedTimeStep\<rfloor>)
             (g\<lparr>accumulator := accumulator g + min rawDt 0.1\<rparr>) \<and>
         (\<forall>g'. Game_animate rawDt g = Inr g' \<longrightarrow>
            accumulator g' = accumulator g + min rawDt 0.1
               - real (nat \<lfloor>(accumulator g + min rawDt 0.1) / fixedTimeStep\<rfloor>) * fixedTimeStep \<and>
            accumulator g' < fixedTimeStep \<and>
            (0 \<le> accumulator g + min rawDt 0.1 \<longrightarrow> 0 \<le> accumulator g')) \<and>
         (PowerUpManager_typed (powerups g) \<longrightarrow> (\<exists>g'. Game_animate rawDt g = Inr g')) \<and>
         (accumulator g + min rawDt 0.1 = 0.05 \<longrightarrow>
            nat \<lfloor>(accumulator g + min rawDt 0.1) / fixedTimeStep\<rfloor> = 3 \<and>
            (\<forall>g'. Game_animate rawDt g = Inr g' \<longrightarrow> accumulator g' = 0))"
proof -
  define a where "a = accumulator g + min rawDt 0.1"
  define n where "n = nat \<lfloor>a / fixedTimeStep\<rfloor>"
  have eq: "Game_animate rawDt g = Game_fixedSteps n (g\<lparr>accumulator := a\<rparr>)"
    using assms by (simp add: Game_animate_def Let_def Game_animateLoop_fixedSteps a_def n_def)
  have rem: "accumulator g' = a - real n * fixedTimeStep \<and> accumulator g' < fixedTimeStep \<and>
      (0 \<le> a \<longrightarrow> 0 \<le> accumulator g')" if "Game_animate rawDt g = Inr g'" for g'
  proof -
    from that eq have r: "accumulator g' = a - real n * fixedTimeStep"
      using Game_fixedSteps_accumulator [of n "g\<lparr>accumulator := a\<rparr>" g'] by simp
    have f: "real_of_int \<lfloor>a * 60\<rfloor> \<le> a * 60" "a * 60 < real_of_int \<lfloor>a * 60\<rfloor> + 1" by linarith+
    from r have r60: "accumulator g' * 60 = a * 60 - real n" by (simp add: fixedTimeStep_def)
    have up: "accumulator g' < fixedTimeStep"
    proof (cases "0 \<le> \<lfloor>a * 60\<rfloor>")
      case True
      then have "real n = real_of_int \<lfloor>a * 60\<rfloor>" by (simp add: n_def fixedTimeStep_def)
      with f r60 have "accumulator g' * 60 < 1" by linarith
      then show ?thesis by (simp add: fixedTimeStep_def)
    next
      case False
      then have "n = 0" by (simp add: n_def fixedTimeStep_def)
      moreover from False f have "a * 60 < 1" by linarith
      ultimately have "accumulator g' * 60 < 1" using r60 by simp
      then show ?thesis by (simp add: fixedTimeStep_def)
    qed
    have lo: "0 \<le> accumulator g'" if "0 \<le> a"
    proof -
      from that have "0 \<le> \<lfloor>a * 60\<rfloor>" by simp
      then have "real n = real_of_int \<lfloor>a * 60\<rfloor>" by (simp add: n_def fixedTimeStep_def)
      with f r60 have "0 \<le> accumulator g' * 60" by linarith
      then show ?thesis by simp
    qed
    from r up lo show ?thesis by blast
  qed
  have tot: "\<exists>g'. Game_animate rawDt g = Inr g'" if "PowerUpManager_typed (powerups g)"
  proof -
    from that have "PowerUpManager_typed (powerups (g\<lparr>accumulator := a\<rparr>))" by simp
    from Game_fixedSteps_total [OF this, of n] eq show ?thesis by auto
  qed
  have ex: "n = 3 \<and> (\<forall>g'. Game_animate rawDt g = Inr g' \<longrightarrow> accumulator g' = 0)" if "a = 0.05"
  proof -
    have a60: "a * 60 = 3" unfolding that by simp
    have "\<lfloor>a * 60\<rfloor> = 3" unfolding a60 by simp
    then have n3: "n = 3" by (simp add: n_def fixedTimeStep_def)
    have "accumulator g' = 0" if "Game_animate rawDt g = Inr g'" for g'
      using rem [OF that] n3 \<open>a = 0.05\<close> by (simp add: fixedTimeStep_def)
    with n3 show ?thesis by blast
  qed
  have le: "min rawDt 0.1 \<le> 0.1" by simp
  show ?thesis
    using le eq rem tot ex unfolding n_def a_def by blast
qed

theorem Game_animate_fixed_steps_witness:
  "state startedGame = PLAYING \<and> accumulator startedGame + min 0.05 0.1 = 0.05 \<and>
     PowerUpManager_typed (powerups startedGame) \<and>
     Game_animate 0.05 startedGame = Game_fixedSteps 3 (startedGame\<lparr>accumulator := 0.05\<rparr>) \<and>
     (\<exists>g'. Game_animate 0.05 startedGame = Inr g' \<and> accumulator g' = 0)"
proof -
  have p: "state startedGame = PLAYING" and t: "PowerUpManager_typed (powerups startedGame)"
    and a: "accumulator startedGame + min 0.05 0.1 = 0.05"
    by (simp_all add: startedGame_facts)
  note th = Game_animate_fixed_steps [OF p, of "0.05"]
  from th t obtain g' where g': "Game_animate 0.05 startedGame = Inr g'" by blast
  from th a g' have "accumulator g' = 0" by blast
  moreover from th a have "Game_animate 0.05 startedGame = Game_fixedSteps 3 (startedGame\<lparr>accumulator := 0.05\<rparr>)"
    by (simp add: startedGame_facts fixedTimeStep_def)
  ultimately show ?thesis using p t a g' by blast
qed

text \<open>
  C3 as stated fails in its example: a frame with 0.05 accumulated on a session just
  started runs 3 fixed steps and leaves 0 in the accumulator, not about 0.0167.
\<close>

theorem Game_animate_remainder_counterexample:
  "Game_animate 0.05 startedGame = Game_fixedSteps 3 (startedGame\<lparr>accumulator := 0.05\<rparr>) \<and>
     after accumulator (Game_animate 0.05 startedGame) = Some 0"
proof -
  have a: "accumulator startedGame + min 0.05 0.1 = 0.05" by (simp add: startedGame_facts)
  have eq: "Game_animate 0.05 startedGame = Game_fixedSteps 3 (startedGame\<lparr>accumulator := 0.05\<rparr>)"
    by (simp add: Game_animate_def Let_def Game_animateLoop_fixedSteps startedGame_facts fixedTimeStep_def)
  have "PowerUpManager_typed (powerups (startedGame\<lparr>accumulator := 0.05\<rparr>))"
    by (simp add: startedGame_facts)
  from Game_fixedSteps_total [OF this, of 3]
  obtain g' where g': "Game_fixedSteps 3 (startedGame\<lparr>accumulator := 0.05\<rparr>) = Inr g'" by blast
  from Game_fixedSteps_accumulator [OF g'] have "accumulator g' = 0" by (simp add: fixedTimeStep_def)
  with eq g' show ?thesis by (simp add: after_def)
qed

text \<open>
  C4. Whatever the host delivers (frames, key events, pointer events) to a game just
  constructed, the run returns without an exception and the three pools keep their
  capacities of 40 obstacles, 10 power-ups and 200 particles, so that the number of active
  entities of a pool never exceeds its capacity. In a pool whose slots are all active,
  the search for a free slot finds none, and the spawn (of an obstacle, of a power-up once
  the chance has been drawn, of a burst of particles) returns with the pool, and so every
  entity in it, as it was.
\<close>

theorem pools_never_exceed_capacity:
  "(\<exists>g. Game_run evs (Game_new hs e) = Inr g \<and> Game_capacities g = (40, 10, 200) \<and>
        length (filter Obstacle.active (ObstacleManager.pool (obstacles g))) \<le> 40 \<and>
        length (filter PowerUp.active (PowerUpManager.pool (powerups g))) \<le> 10 \<and>
        length (filter Particle.active (ParticleSystem.pool (particles g))) \<le> 200) \<and>
   ((\<forall>ob\<in>set (ObstacleManager.pool om). Obstacle.active ob) \<longrightarrow>
        ObstacleManager_getInactive om = None \<and>
        ObstacleManager_spawnObstacle spd force om e1 = (om, e1)) \<and>
   ((\<forall>pu\<in>set (PowerUpManager.pool pm). PowerUp.active pu) \<longrightarrow>
        PowerUpManager_getInactive pm = None \<and>
        fst (PowerUpManager_trySpawn spd pm e1) = pm) \<and>
   ((\<forall>p\<in>set (ParticleSystem.pool ps). Particle.active p) \<longrightarrow>
        ParticleSystem_getInactive ps = None \<and>
        ParticleSystem_spawnShatter pos col n ps e1 = (ps, e1) \<and>
        ParticleSystem_spawnExplosion pos n ps e1 = (ps, e1) \<and>
        ParticleSystem_spawnPickup pos col n ps e1 = (ps, e1))"
proof -
  from Game_run_total [OF Game_new_typed, of evs hs e]
  obtain g where g: "Game_run evs (Game_new hs e) = Inr g" "Game_capacities g = (40, 10, 200)"
    by (auto simp: Game_new_capacities)
  from g(2) have len: "length (ObstacleManager.pool (obstacles g)) = 40"
    "length (PowerUpManager.pool (powerups g)) = 10" "length (ParticleSystem.pool (particles g)) = 200"
    by (simp_all add: Game_capacities_def)
  have "length (filter Obstacle.active (ObstacleManager.pool (obstacles g))) \<le> 40"
    "length (filter PowerUp.active (PowerUpManager.pool (powerups g))) \<le> 10"
    "length (filter Particle.active (ParticleSystem.pool (particles g))) \<le> 200"
    using len length_filter_le [of Obstacle.active "ObstacleManager.pool (obstacles g)"]
      length_filter_le [of PowerUp.active "PowerUpManager.pool (powerups g)"]
      length_filter_le [of Particle.active "ParticleSystem.pool (particles g)"] by simp_all
  with g have run: "\<exists>g. Game_run evs (Game_new hs e) = Inr g \<and> Game_capacities g = (40, 10, 200) \<and>
        length (filter Obstacle.active (ObstacleManager.pool (obstacles g))) \<le> 40 \<and>
        length (filter PowerUp.active (PowerUpManager.pool (powerups g))) \<le> 10 \<and>
        length (filter Particle.active (ParticleSystem.pool (particles g))) \<le> 200" by blast
  show ?thesis
    using run ObstacleManager_getInactive_full [of om] spawnObstacle_full [of om spd force e1]
      PowerUpManager_getInactive_full [of pm] PowerUpManager_trySpawn_full [of pm spd e1]
      ParticleSystem_getInactive_full [of ps] spawnShatter_full [of ps pos col n e1]
      spawnExplosion_full [of ps pos n e1] spawnPickup_full [of ps pos col n e1]
    by blast
qed

theorem pools_never_exceed_capacity_witness:
  "(\<exists>g. Game_run [Pointer, AnimationFrame 0.05] (Game_new 0 sampleEnv) = Inr g \<and>
        Game_capacities g = (40, 10, 200)) \<and>
   ObstacleManager_getInactive fullObstacles = None \<and>
   ObstacleManager_spawnObstacle 15 False fullObstacles sampleEnv = (fullObstacles, sampleEnv) \<and>
   fst (PowerUpManager_trySpawn 15 fullPowerUps sampleEnv) = fullPowerUps \<and>
   ParticleSystem_spawnShatter (vec3_new 0 0 0) 0 25 fullParticles sampleEnv = (fullParticles, sampleEnv)"
proof -
  have o: "\<forall>ob\<in>set (ObstacleManager.pool fullObstacles). Obstacle.active ob"
    by (simp add: fullObstacles_def)
  have u: "\<forall>pu\<in>set (PowerUpManager.pool fullPowerUps). PowerUp.active pu"
    by (simp add: fullPowerUps_def)
  have p: "\<forall>p\<in>set (ParticleSystem.pool fullParticles). Particle.active p"
    by (simp add: fullParticles_def)
  from pools_never_exceed_capacity
    [of "[Pointer, AnimationFrame 0.05]" 0 sampleEnv fullObstacles 15 False sampleEnv
        fullPowerUps fullParticles "vec3_new 0 0 0" 0 25] o u p
  show ?thesis by blast
qed




text \<open>
  C7 (amended). A restart from GAME_OVER is a call of \<open>_startGame\<close>. Its first statement
  sets the phase to PLAYING, and the statements after it, in the same handler, set the
  score to 0, deactivate every entity of every pool and clear the active power-up: when
  the handler returns, all of this holds together with the phase PLAYING, and no tick can
  run in between. The phase is PLAYING from the first statement on, while the score is
  still the old one.
\<close>

theorem restart_resets:
  assumes "state g = GAME_OVER"
  shows "Game_startHandler g = Game_startGame g \<and>
     state (Game_startHandler g) = PLAYING \<and>
     score (Game_startHandler g) = 0 \<and>
     (\<forall>ob\<in>set (ObstacleManager.pool (obstacles (Game_startHandler g))). \<not> Obstacle.active ob) \<and>
     (\<forall>pu\<in>set (PowerUpManager.pool (powerups (Game_startHandler g))). \<not> PowerUp.active pu) \<and>
     (\<forall>p\<in>set (ParticleSystem.pool (particles (Game_startHandler g))). \<not> Particle.active p) \<and>
     activePowerUp (powerups (Game_startHandler g)) = None \<and>
     state (runStatements Game_startGame_statements 0 g) = GAME_OVER \<and>
     (\<forall>n. 1 \<le> n \<longrightarrow> state (runStatements Game_startGame_statements n g) = PLAYING) \<and>
     score (runStatements Game_startGame_statements 1 g) = score g"
proof -
  have h: "Game_startHandler g = Game_startGame g" using assms by (simp add: Game_startHandler_def)
  have a: "state (Game_startGame g) = PLAYING" "score (Game_startGame g) = 0"
    "obstacles (Game_startGame g) = ObstacleManager_reset (obstacles g)"
    "powerups (Game_startGame g) = PowerUpManager_reset (powerups g)"
    "particles (Game_startGame g) = ParticleSystem_reset (particles g)"
    by (simp_all add: Game_startGame_eq)
  have b: "activePowerUp (PowerUpManager_reset (powerups g)) = None"
    by (simp add: PowerUpManager_reset_def)
  have c: "score (runStatements Game_startGame_statements 1 g) = score g"
    by (simp add: runStatements_def Game_startGame_statements_def)
  show ?thesis
    unfolding h a
    using assms b c ObstacleManager_reset_inactive [of "obstacles g"]
      PowerUpManager_reset_inactive [of "powerups g"] ParticleSystem_reset_inactive [of "particles g"]
    by (simp add: runStatements_startGame_state)
qed

theorem restart_resets_witness:
  "state endedGame = GAME_OVER \<and> score endedGame = 7 \<and>
     state (Game_startHandler endedGame) = PLAYING \<and> score (Game_startHandler endedGame) = 0 \<and>
     activePowerUp (powerups (Game_startHandler endedGame)) = None"
proof -
  have s: "state endedGame = GAME_OVER" "score endedGame = 7" by (simp_all add: endedGame_def)
  from restart_resets [OF s(1)] s show ?thesis by metis
qed

text \<open>
  C7 as stated fails: the resets do not happen before the phase becomes PLAYING. After
  the first statement of \<open>_startGame\<close> on a session that ended with a score of 7 and DOUBLE
  active, the phase is PLAYING, the score is still 7 and DOUBLE is still active.
\<close>

theorem restart_order_counterexample:
  "state endedGame = GAME_OVER \<and>
     state (runStatements Game_startGame_statements 1 endedGame) = PLAYING \<and>
     score (runStatements Game_startGame_statements 1 endedGame) = 7 \<and>
     activePowerUp (powerups (runStatements Game_startGame_statements 1 endedGame)) =
       Some \<lparr>ActivePowerUp.type = DOUBLE, timeLeft = 3, color = 0xffcc00\<rparr>"
  by (simp add: runStatements_def Game_startGame_statements_def endedGame_def)

text \<open>
  C8. Two boxes intersect exactly when their closed intervals overlap on all three axes,
  so boxes that touch on a face intersect. The update of the player leaves its box as the
  box of its mesh inset by 0.1 on every axis, the update of an active power-up leaves its
  box as the box of its mesh outset by 0.2. A tick scans the power-up pool, with the
  player's box, before the obstacle pool, which is scanned in the state the first scan
  leaves (with the same player and obstacles). A scan reports at most one collision, that
  of the first active entity in slot order whose box intersects the player's: the power-up
  pool changes in that slot only, and a scan that reports nothing has found no active
  entity that intersects.
\<close>

theorem collision_detection:
  "(intersectsBox a b \<longleftrightarrow>
      vx (bmin a) \<le> vx (bmax b) \<and> vx (bmin b) \<le> vx (bmax a) \<and>
      vy (bmin a) \<le> vy (bmax b) \<and> vy (bmin b) \<le> vy (bmax a) \<and>
      vz (bmin a) \<le> vz (bmax b) \<and> vz (bmin b) \<le> vz (bmax a)) \<and>
   (vx (bmax a) = vx (bmin b) \<and>
      vy (bmin a) \<le> vy (bmax b) \<and> vy (bmin b) \<le> vy (bmax a) \<and>
      vz (bmin a) \<le> vz (bmax b) \<and> vz (bmin b) \<le> vz (bmax a) \<and>
      vx (bmin a) \<le> vx (bmax a) \<and> vx (bmin b) \<le> vx (bmax b) \<longrightarrow> intersectsBox a b) \<and>
   Player.boundingBox (fst (Player_update dt acts ap p e)) =
     \<lparr>bmin = vec3_addScalar (bmin (setFromObject e (Player.mesh (fst (Player_update dt acts ap p e))))) 0.1,
      bmax = vec3_addScalar (bmax (setFromObject e (Player.mesh (fst (Player_update dt acts ap p e))))) (- 0.1)\<rparr> \<and>
   (PowerUp.active pu \<longrightarrow>
      PowerUp.boundingBox (fst (PowerUp_update dt pu e)) =
        \<lparr>bmin = vec3_addScalar (bmin (setFromObject e (PowerUp.mesh (fst (PowerUp_update dt pu e))))) (- 0.2),
         bmax = vec3_addScalar (bmax (setFromObject e (PowerUp.mesh (fst (PowerUp_update dt pu e))))) 0.2\<rparr>) \<and>
   (state g = PLAYING \<longrightarrow>
      Game_update dt g =
        (case Game_powerUpCollision (Game_beforeCollisions dt g) of
           Inl err \<Rightarrow> Inl err
         | Inr m \<Rightarrow> Inr (Game_obstacleCollision dt m))) \<and>
   (Game_powerUpCollision g = Inr m \<longrightarrow>
      (\<exists>r. PowerUpManager_checkCollision (Player.boundingBox (player g)) (powerups g) =
             Inr (r, powerups m)) \<and> obstacles m = obstacles g \<and> player m = player g) \<and>
   (PowerUpManager_checkCollision bb pm = Inr (Some pk, pm') \<longrightarrow>
      (\<exists>i<length (PowerUpManager.pool pm).
          PowerUp.active (PowerUpManager.pool pm ! i) \<and>
          intersectsBox bb (PowerUp.boundingBox (PowerUpManager.pool pm ! i)) \<and>
          (\<forall>j<i. \<not> (PowerUp.active (PowerUpManager.pool pm ! j) \<and>
                      intersectsBox bb (PowerUp.boundingBox (PowerUpManager.pool pm ! j)))) \<and>
          PowerUpManager.pool pm' =
            (PowerUpManager.pool pm)[i := PowerUp_deactivate (PowerUpManager.pool pm ! i)])) \<and>
   (PowerUpManager_checkCollision bb pm = Inr (None, pm') \<longrightarrow>
      pm' = pm \<and>
      (\<forall>pu\<in>set (PowerUpManager.pool pm).
          \<not> (PowerUp.active pu \<and> intersectsBox bb (PowerUp.boundingBox pu)))) \<and>
   (ObstacleManager_checkCollision bb om = Some hit \<longrightarrow>
      obstacle hit < length (ObstacleManager.pool om) \<and>
      Obstacle.active (ObstacleManager.pool om ! obstacle hit) \<and>
      intersectsBox bb (Obstacle.boundingBox (ObstacleManager.pool om ! obstacle hit)) \<and>
      (\<forall>j<obstacle hit. \<not> (Obstacle.active (ObstacleManager.pool om ! j) \<and>
          intersectsBox bb (Obstacle.boundingBox (ObstacleManager.pool om ! j))))) \<and>
   (ObstacleManager_checkCollision bb om = None \<longrightarrow>
      (\<forall>ob\<in>set (ObstacleManager.pool om).
          \<not> (Obstacle.active ob \<and> intersectsBox bb (Obstacle.boundingBox ob))))"
proof -
  have 1: "intersectsBox a b \<longleftrightarrow>
      vx (bmin a) \<le> vx (bmax b) \<and> vx (bmin b) \<le> vx (bmax a) \<and>
      vy (bmin a) \<le> vy (bmax b) \<and> vy (bmin b) \<le> vy (bmax a) \<and>
      vz (bmin a) \<le> vz (bmax b) \<and> vz (bmin b) \<le> vz (bmax a)"
    by (simp add: intersectsBox_def)
  have 2: "vx (bmax a) = vx (bmin b) \<and>
      vy (bmin a) \<le> vy (bmax b) \<and> vy (bmin b) \<le> vy (bmax a) \<and>
      vz (bmin a) \<le> vz (bmax b) \<and> vz (bmin b) \<le> vz (bmax a) \<and>
      vx (bmin a) \<le> vx (bmax a) \<and> vx (bmin b) \<le> vx (bmax b) \<longrightarrow> intersectsBox a b"
    by (simp add: intersectsBox_def)
  have 3: "Player.boundingBox (fst (Player_update dt acts ap p e)) =
     \<lparr>bmin = vec3_addScalar (bmin (setFromObject e (Player.mesh (fst (Player_update dt acts ap p e))))) 0.1,
      bmax = vec3_addScalar (bmax (setFromObject e (Player.mesh (fst (Player_update dt acts ap p e))))) (- 0.1)\<rparr>"
    by (subst Player_update_boundingBox) (simp add: expandByScalar_def)
  have 4: "PowerUp.active pu \<longrightarrow>
      PowerUp.boundingBox (fst (PowerUp_update dt pu e)) =
        \<lparr>bmin = vec3_addScalar (bmin (setFromObject e (PowerUp.mesh (fst (PowerUp_update dt pu e))))) (- 0.2),
         bmax = vec3_addScalar (bmax (setFromObject e (PowerUp.mesh (fst (PowerUp_update dt pu e))))) 0.2\<rparr>"
    by (simp add: PowerUp_update_boundingBox expandByScalar_def)
  have 5: "state g = PLAYING \<longrightarrow>
      Game_update dt g =
        (case Game_powerUpCollision (Game_beforeCollisions dt g) of
           Inl err \<Rightarrow> Inl err
         | Inr m \<Rightarrow> Inr (Game_obstacleCollision dt m))"
    by (simp add: Game_update_def)
  have 6: "Game_powerUpCollision g = Inr m \<longrightarrow>
      (\<exists>r. PowerUpManager_checkCollision (Player.boundingBox (player g)) (powerups g) =
             Inr (r, powerups m)) \<and> obstacles m = obstacles g \<and> player m = player g"
    by (auto simp: Game_powerUpCollision_def Let_def case_prod_beta split: sum.splits option.splits)
  have 7: "PowerUpManager_checkCollision bb pm = Inr (Some pk, pm') \<longrightarrow>
      (\<exists>i<length (PowerUpManager.pool pm).
          PowerUp.active (PowerUpManager.pool pm ! i) \<and>
          intersectsBox bb (PowerUp.boundingBox (PowerUpManager.pool pm ! i)) \<and>
          (\<forall>j<i. \<not> (PowerUp.active (PowerUpManager.pool pm ! j) \<and>
                      intersectsBox bb (PowerUp.boundingBox (PowerUpManager.pool pm ! j)))) \<and>
          PowerUpManager.pool pm' =
            (PowerUpManager.pool pm)[i := PowerUp_deactivate (PowerUpManager.pool pm ! i)])"
    using PowerUpManager_checkCollision_Some [of bb pm pk pm'] by blast
  have 8: "PowerUpManager_checkCollision bb pm = Inr (None, pm') \<longrightarrow>
      pm' = pm \<and>
      (\<forall>pu\<in>set (PowerUpManager.pool pm).
          \<not> (PowerUp.active pu \<and> intersectsBox bb (PowerUp.boundingBox pu)))"
    using PowerUpManager_checkCollision_None [of bb pm pm'] by blast
  have 9: "ObstacleManager_checkCollision bb om = Some hit \<longrightarrow>
      obstacle hit < length (ObstacleManager.pool om) \<and>
      Obstacle.active (ObstacleManager.pool om ! obstacle hit) \<and>
      intersectsBox bb (Obstacle.boundingBox (ObstacleManager.pool om ! obstacle hit)) \<and>
      (\<forall>j<obstacle hit. \<not> (Obstacle.active (ObstacleManager.pool om ! j) \<and>
          intersectsBox bb (Obstacle.boundingBox (ObstacleManager.pool om ! j))))"
    using ObstacleManager_checkCollision_Some [of bb om hit] by blast
  have 10: "ObstacleManager_checkCollision bb om = None \<longrightarrow>
      (\<forall>ob\<in>set (ObstacleManager.pool om).
          \<not> (Obstacle.active ob \<and> intersectsBox bb (Obstacle.boundingBox ob)))"
    by (auto simp: ObstacleManager_checkCollision_def Let_def findSlot_None_iff split: option.splits)
  from 1 2 3 4 5 6 7 8 9 10 show ?thesis by (intro conjI)
qed

theorem collision_detection_witness:
  "intersectsBox startBox touchingBox \<and>
   (\<exists>hit. ObstacleManager_checkCollision startBox twoObstaclesAhead = Some hit \<and> obstacle hit = 0) \<and>
   (\<exists>pk pm'. PowerUpManager_checkCollision startBox shieldAhead = Inr (Some pk, pm') \<and>
      PowerUpManager.pool pm' =
        (PowerUpManager.pool shieldAhead)[0 := PowerUp_deactivate (PowerUpManager.pool shieldAhead ! 0)]) \<and>
   state startedGame = PLAYING \<and>
   Game_update fixedTimeStep startedGame =
     (case Game_powerUpCollision (Game_beforeCollisions fixedTimeStep startedGame) of
        Inl err \<Rightarrow> Inl err
      | Inr m \<Rightarrow> Inr (Game_obstacleCollision fixedTimeStep m))"
proof -
  note th = collision_detection [where a = startBox and b = touchingBox and bb = startBox
      and om = twoObstaclesAhead and pm = shieldAhead and g = startedGame and dt = fixedTimeStep]
  have t: "vz (bmin startBox) = vz (bmax touchingBox)" by (simp add: startBox_def touchingBox_def vec3_new_def)
  have i: "intersectsBox startBox touchingBox"
    using th [THEN conjunct1] by (simp add: startBox_def touchingBox_def vec3_new_def)
  have "\<exists>hit. ObstacleManager_checkCollision startBox twoObstaclesAhead = Some hit"
    by (simp add: ObstacleManager_checkCollision_def twoObstaclesAhead_def obstacleAhead_def
        obstacleAt_def sampleBox_def object3d_new_def vec3_addScalar_def
        startBox_def Obstacle_new_def intersectsBox_def vec3_new_def Let_def ObstacleManager_new_def)
  then obtain hit where hit: "ObstacleManager_checkCollision startBox twoObstaclesAhead = Some hit"
    by blast
  have first: "Obstacle.active (ObstacleManager.pool twoObstaclesAhead ! 0) \<and>
      intersectsBox startBox (Obstacle.boundingBox (ObstacleManager.pool twoObstaclesAhead ! 0))"
    by (simp add: twoObstaclesAhead_def obstacleAhead_def startBox_def Obstacle_new_def
        obstacleAt_def sampleBox_def object3d_new_def vec3_addScalar_def
        intersectsBox_def vec3_new_def ObstacleManager_new_def)
  from th [THEN conjunct2, THEN conjunct2, THEN conjunct2, THEN conjunct2, THEN conjunct2,
      THEN conjunct2, THEN conjunct2, THEN conjunct2, THEN conjunct1, rule_format, OF hit]
  have "\<forall>j<obstacle hit. \<not> (Obstacle.active (ObstacleManager.pool twoObstaclesAhead ! j) \<and>
          intersectsBox startBox (Obstacle.boundingBox (ObstacleManager.pool twoObstaclesAhead ! j)))"
    by simp
  with first have h0: "obstacle hit = 0" by (cases "obstacle hit") auto
  have "\<exists>pk pm'. PowerUpManager_checkCollision startBox shieldAhead = Inr (Some pk, pm')"
    by (simp add: PowerUpManager_checkCollision_def shieldAhead_def startBox_def
        PowerUpManager_new_def PowerUp_new_def intersectsBox_def vec3_new_def Let_def)
  then obtain pk pm' where pk: "PowerUpManager_checkCollision startBox shieldAhead = Inr (Some pk, pm')"
    by blast
  have pfirst: "PowerUp.active (PowerUpManager.pool shieldAhead ! 0) \<and>
      intersectsBox startBox (PowerUp.boundingBox (PowerUpManager.pool shieldAhead ! 0))"
    by (simp add: shieldAhead_def startBox_def PowerUpManager_new_def PowerUp_new_def
        intersectsBox_def vec3_new_def)
  from collision_detection [where bb = startBox and pm = shieldAhead and pk = pk and pm' = pm',
      THEN conjunct2, THEN conjunct2, THEN conjunct2, THEN conjunct2, THEN conjunct2,
      THEN conjunct2, THEN conjunct1, rule_format, OF pk]
  obtain k where k: "\<forall>j<k. \<not> (PowerUp.active (PowerUpManager.pool shieldAhead ! j) \<and>
                      intersectsBox startBox (PowerUp.boundingBox (PowerUpManager.pool shieldAhead ! j)))"
     "PowerUpManager.pool pm' =
            (PowerUpManager.pool shieldAhead)[k := PowerUp_deactivate (PowerUpManager.pool shieldAhead ! k)]"
    by blast
  from k(1) pfirst have "k = 0" by (cases k) auto
  with k(2) have pm: "PowerUpManager.pool pm' =
        (PowerUpManager.pool shieldAhead)[0 := PowerUp_deactivate (PowerUpManager.pool shieldAhead ! 0)]"
    by simp
  have p: "state startedGame = PLAYING" by (simp add: startedGame_facts)
  from th [THEN conjunct2, THEN conjunct2, THEN conjunct2, THEN conjunct2, THEN conjunct1,
      rule_format, OF p]
  have u: "Game_update fixedTimeStep startedGame =
     (case Game_powerUpCollision (Game_beforeCollisions fixedTimeStep startedGame) of
        Inl err \<Rightarrow> Inl err
      | Inr m \<Rightarrow> Inr (Game_obstacleCollision fixedTimeStep m))" .
  from i hit h0 pk pm p u show ?thesis by blast
qed

text \<open>
  C9. For every score from 0 on, the difficulty is \<open>clamp (score / 50, 0, 3)\<close>: it lies
  between 0 and 3, it does not decrease when the score grows, and it is exactly 3 from a
  score of 150 on.
\<close>

theorem difficulty_contract:
  "0 \<le> s \<Longrightarrow>
     difficulty s = clamp (real_of_int s / 50) 0 3 \<and>
     0 \<le> difficulty s \<and> difficulty s \<le> 3 \<and>
     (\<forall>s2. s \<le> s2 \<longrightarrow> difficulty s \<le> difficulty s2) \<and>
     (150 \<le> s \<longrightarrow> difficulty s = 3)"
  by (auto simp: difficulty_def clamp_def min_def max_def)

theorem difficulty_contract_witness:
  "(0::int) \<le> 200 \<and> difficulty 200 = clamp (real_of_int 200 / 50) 0 3 \<and>
     0 \<le> difficulty 200 \<and> difficulty 200 \<le> 3 \<and> difficulty 200 \<le> difficulty 300 \<and>
     difficulty 200 = 3"
proof -
  have h: "(0::int) \<le> 200" by simp
  from difficulty_contract [OF h] h show ?thesis by fastforce
qed

text \<open>
  C10. After every call of the player's update, with any input and any step, the lateral
  position lies in the closed interval from \<open>-(trackWidth / 2 - 0.5)\<close> to
  \<open>trackWidth / 2 - 0.5\<close>, that is from -4.5 to 4.5 for the track width 10 of the
  constructor, which the update leaves as it is.
\<close>

theorem Player_update_x_clamped:
  "Player.trackWidth p = 10 \<Longrightarrow>
     - (Player.trackWidth p / 2 - 0.5) = - 4.5 \<and>
     - 4.5 \<le> vx (object3d.position (Player.mesh (fst (Player_update dt a ap p e)))) \<and>
     vx (object3d.position (Player.mesh (fst (Player_update dt a ap p e)))) \<le> 4.5 \<and>
     Player.trackWidth (fst (Player_update dt a ap p e)) = 10"
  by (simp add: Player_update_x clamp_def min_def max_def)

theorem Player_update_x_clamped_witness:
  "Player.trackWidth Player_new = 10 \<and>
     vx (object3d.position (Player.mesh (fst (Player_update 1 heldLeft None Player_new sampleEnv)))) = - 4.5"
proof -
  have h: "Player.trackWidth Player_new = 10" by (simp add: Player_new_def)
  have "vx (object3d.position (Player.mesh (fst (Player_update 1 heldLeft None Player_new sampleEnv)))) \<le> - 4.5"
    by (simp add: Player_update_x Player_new_def heldLeft_def object3d_new_def vec3_new_def clamp_def)
  with Player_update_x_clamped [OF h, of 1 heldLeft None sampleEnv] h show ?thesis by simp
qed

end
